theory Spec2Isabelle
  imports Complex_Main "HOL-Library.Sublist" "HOL-Library.Log_Nat"
begin

section \<open>JavaScript values the middleware layer works on\<close>

text \<open>
  A TypeScript parameter with a default value (\<^verbatim>\<open>statusCode: number = 500\<close>) and an
  optional property (\<^verbatim>\<open>data?: T\<close>) are both \<open>'a option\<close>: \<open>None\<close> is
  \<^verbatim>\<open>undefined\<close>, and the default applies exactly there.
\<close>

definition orDefault :: "'a option \<Rightarrow> 'a \<Rightarrow> 'a" where
  "orDefault v d = (case v of None \<Rightarrow> d | Some x \<Rightarrow> x)"

text \<open>
  A \<^verbatim>\<open>Record<string, string[]>\<close> object: its own properties in the order the object
  enumerates them, which is the order \<^verbatim>\<open>res.json\<close> writes them in.
\<close>

type_synonym fieldErrors = "(string \<times> string list) list"

subsection \<open>Error objects and their prototype chains\<close>

text \<open>
  \<^verbatim>\<open>instanceof\<close> looks for a class's prototype object on the prototype chain of the
  value. The prototype objects below are those of \<^verbatim>\<open>Error\<close> and
  \<^verbatim>\<open>SyntaxError\<close>, of the classes of \<^verbatim>\<open>core/errors\<close>, and
  \<open>ForeignPrototype\<close> for any other subclass of \<^verbatim>\<open>Error\<close> (a \<^verbatim>\<open>TypeError\<close>, the
  database client's error classes). \<open>protoChain\<close> follows the \<^verbatim>\<open>extends\<close> clauses.
\<close>

datatype proto =
    ErrorPrototype
  | SyntaxErrorPrototype
  | ForeignPrototype
  | AppErrorPrototype
  | BadRequestErrorPrototype
  | UnauthorizedErrorPrototype
  | ForbiddenErrorPrototype
  | NotFoundErrorPrototype
  | ConflictErrorPrototype
  | ValidationErrorPrototype
  | TooManyRequestsErrorPrototype
  | InternalServerErrorPrototype

fun protoChain :: "proto \<Rightarrow> proto list" where
  "protoChain ErrorPrototype = [ErrorPrototype]"
| "protoChain SyntaxErrorPrototype = [SyntaxErrorPrototype, ErrorPrototype]"
| "protoChain ForeignPrototype = [ForeignPrototype, ErrorPrototype]"
| "protoChain AppErrorPrototype = [AppErrorPrototype, ErrorPrototype]"
| "protoChain p = [p, AppErrorPrototype, ErrorPrototype]"

text \<open>
  An error object as the handlers read it: its prototype, what \<^verbatim>\<open>err.name\<close> and
  \<^verbatim>\<open>err.message\<close> evaluate to, the properties the classes of
  \<^verbatim>\<open>core/errors\<close> assign (\<open>None\<close> where the object has none), and whether the
  object has a \<^verbatim>\<open>body\<close> property (the body parser puts one on its syntax errors).
\<close>

record jsError =
  proto :: proto
  name :: string
  message :: string
  statusCode :: "int option"
  code :: "string option"
  isOperational :: "bool option"
  errors :: "fieldErrors option"
  hasBody :: bool

definition instanceOf :: "jsError \<Rightarrow> proto \<Rightarrow> bool" where
  "instanceOf err cls = (cls \<in> set (protoChain (proto err)))"

text \<open>
  \<^verbatim>\<open>super(message)\<close> reaching \<^verbatim>\<open>Error\<close>: the new object gets the prototype of
  \<^verbatim>\<open>new.target\<close>, the class named after \<^verbatim>\<open>new\<close>. No class of this repository
  assigns \<^verbatim>\<open>name\<close>, so the lookup finds \<^verbatim>\<open>Error.prototype.name\<close>.
\<close>

definition newError :: "proto \<Rightarrow> string \<Rightarrow> jsError" where
  "newError newTarget msg =
     \<lparr>proto = newTarget, name = ''Error'', message = msg, statusCode = None, code = None,
      isOperational = None, errors = None, hasBody = False\<rparr>"

section \<open>The error taxonomy (core/errors)\<close>

text \<open>
  The constructor of \<^verbatim>\<open>AppError\<close> assigns the three fields and then runs
  \<^verbatim>\<open>Object.setPrototypeOf(this, AppError.prototype)\<close>: whatever class was
  instantiated, the finished object has the prototype of \<^verbatim>\<open>AppError\<close> itself. The
  subclasses call it through \<^verbatim>\<open>super(...)\<close> and do not set the prototype again.
\<close>

definition AppError ::
  "proto \<Rightarrow> string \<Rightarrow> int option \<Rightarrow> string option \<Rightarrow> bool option \<Rightarrow> jsError" where
  "AppError newTarget msg status c operational =
     (newError newTarget msg)
       \<lparr>statusCode := Some (orDefault status 500),
        code := Some (orDefault c ''INTERNAL_ERROR''),
        isOperational := Some (orDefault operational True),
        proto := AppErrorPrototype\<rparr>"

definition BadRequestError :: "string option \<Rightarrow> string option \<Rightarrow> jsError" where
  "BadRequestError msg c =
     AppError BadRequestErrorPrototype (orDefault msg ''Bad Request'') (Some 400)
       (Some (orDefault c ''BAD_REQUEST'')) None"

definition UnauthorizedError :: "string option \<Rightarrow> string option \<Rightarrow> jsError" where
  "UnauthorizedError msg c =
     AppError UnauthorizedErrorPrototype (orDefault msg ''Unauthorized'') (Some 401)
       (Some (orDefault c ''UNAUTHORIZED'')) None"

definition ForbiddenError :: "string option \<Rightarrow> string option \<Rightarrow> jsError" where
  "ForbiddenError msg c =
     AppError ForbiddenErrorPrototype (orDefault msg ''Forbidden'') (Some 403)
       (Some (orDefault c ''FORBIDDEN'')) None"

definition NotFoundError :: "string option \<Rightarrow> string option \<Rightarrow> jsError" where
  "NotFoundError msg c =
     AppError NotFoundErrorPrototype (orDefault msg ''Not Found'') (Some 404)
       (Some (orDefault c ''NOT_FOUND'')) None"

definition ConflictError :: "string option \<Rightarrow> string option \<Rightarrow> jsError" where
  "ConflictError msg c =
     AppError ConflictErrorPrototype (orDefault msg ''Conflict'') (Some 409)
       (Some (orDefault c ''CONFLICT'')) None"

definition ValidationError :: "string option \<Rightarrow> fieldErrors option \<Rightarrow> jsError" where
  "ValidationError msg errs =
     (AppError ValidationErrorPrototype (orDefault msg ''Validation Error'') (Some 422)
        (Some ''VALIDATION_ERROR'') None)
       \<lparr>errors := Some (orDefault errs [])\<rparr>"

definition TooManyRequestsError :: "string option \<Rightarrow> string option \<Rightarrow> jsError" where
  "TooManyRequestsError msg c =
     AppError TooManyRequestsErrorPrototype (orDefault msg ''Too Many Requests'') (Some 429)
       (Some (orDefault c ''RATE_LIMITED'')) None"

definition InternalServerError :: "string option \<Rightarrow> string option \<Rightarrow> jsError" where
  "InternalServerError msg c =
     AppError InternalServerErrorPrototype (orDefault msg ''Internal Server Error'') (Some 500)
       (Some (orDefault c ''INTERNAL_ERROR'')) (Some False)"

section \<open>The response envelope (core/response)\<close>

text \<open>
  The body handed to \<^verbatim>\<open>res.json\<close> is an object literal: its keys in the order they
  are written, a spread of \<^verbatim>\<open>undefined\<close> or \<^verbatim>\<open>false\<close> adding none.
\<close>

record pagination =
  page :: int
  limit :: int
  total :: int

record pageMeta = pagination +
  totalPages :: "int option"

datatype 'a jsonValue =
    JBool bool
  | JString string
  | JData 'a
  | JErrors fieldErrors
  | JMeta pageMeta

type_synonym 'a apiResponse = "(string \<times> 'a jsonValue) list"

record 'a httpResponse =
  httpStatus :: int
  jsonBody :: "'a apiResponse"

definition sendSuccess ::
  "string \<Rightarrow> 'a option \<Rightarrow> int option \<Rightarrow> pageMeta option \<Rightarrow> 'a httpResponse" where
  "sendSuccess msg dat status meta =
     \<lparr>httpStatus = orDefault status 200,
      jsonBody =
        [(''success'', JBool True), (''message'', JString msg)]
        @ (case dat of None \<Rightarrow> [] | Some d \<Rightarrow> [(''data'', JData d)])
        @ (case meta of None \<Rightarrow> [] | Some m \<Rightarrow> [(''meta'', JMeta m)])\<rparr>"

definition sendError ::
  "string \<Rightarrow> int option \<Rightarrow> fieldErrors option \<Rightarrow> 'a httpResponse" where
  "sendError msg status errs =
     \<lparr>httpStatus = orDefault status 500,
      jsonBody =
        [(''success'', JBool False), (''message'', JString msg)]
        @ (case errs of None \<Rightarrow> [] | Some e \<Rightarrow> [(''errors'', JErrors e)])\<rparr>"

subsection \<open>The quotient of two numbers\<close>

text \<open>
  A JavaScript number is an IEEE 754 double. The pagination arguments are integers, so
  \<^verbatim>\<open>total / limit\<close> is the double nearest to the exact quotient of two integers, a
  tie going to the even significand, and \<^verbatim>\<open>Math.ceil\<close> of a double is exact. A
  finite double other than zero is a significand \<open>m\<close> of at most 53 bits and an
  exponent \<open>e\<close> of at least \<open>-1074\<close>, standing for \<open>m * 2^e\<close>; a quotient that rounds to
  \<open>2^1024\<close> or more is \<^verbatim>\<open>Infinity\<close>. The arguments are taken as the integers they
  are: an integer of \<open>2^53\<close> or more is a number only when it is itself a double.
\<close>

definition scale :: "int \<Rightarrow> int \<Rightarrow> int" where
  \<comment> \<open>\<open>x * 2^k\<close> for \<open>k \<ge> 0\<close>, and \<open>x\<close> for \<open>k < 0\<close>\<close>
  "scale x k = x * 2 ^ nat k"

definition quotientExponent :: "int \<Rightarrow> int \<Rightarrow> int" where
  \<comment> \<open>the \<open>k\<close> with \<open>2^k \<le> a / b < 2^(k + 1)\<close>, for \<open>a\<close> and \<open>b\<close> of at least 1\<close>
  "quotientExponent a b =
     (let d = bitlen a - bitlen b
      in if scale b d \<le> scale a (- d) then d else d - 1)"

definition roundHalfEven :: "int \<Rightarrow> int \<Rightarrow> int" where
  \<comment> \<open>the integer nearest to \<open>n / d\<close> for \<open>d > 0\<close>, a tie going to the even one\<close>
  "roundHalfEven n d =
     (let f = n div d; r = n mod d
      in if 2 * r < d then f
         else if d < 2 * r then f + 1
         else if even f then f else f + 1)"

definition divideDoubles :: "int \<Rightarrow> int \<Rightarrow> (int \<times> int) option" where
  \<comment> \<open>\<open>a / b\<close> for \<open>a\<close> and \<open>b\<close> of at least 1: significand and exponent, \<open>None\<close> for
     \<^verbatim>\<open>Infinity\<close>\<close>
  "divideDoubles a b =
     (let e = max (quotientExponent a b - 52) (- 1074);
          m = roundHalfEven (scale a (- e)) (scale b e)
      in if 2 ^ 1024 \<le> scale m e then None else Some (m, e))"

definition ceilDouble :: "int \<times> int \<Rightarrow> int" where
  "ceilDouble v =
     (case v of (m, e) \<Rightarrow> if 0 \<le> e then scale m e else - ((- m) div 2 ^ nat (- e)))"

definition floorDouble :: "int \<times> int \<Rightarrow> int" where
  "floorDouble v =
     (case v of (m, e) \<Rightarrow> if 0 \<le> e then scale m e else m div 2 ^ nat (- e))"

text \<open>
  \<^verbatim>\<open>Math.ceil(a / b)\<close>: \<open>None\<close> when it is not a finite number (a zero divisor gives
  \<^verbatim>\<open>Infinity\<close> or \<^verbatim>\<open>NaN\<close>), which \<^verbatim>\<open>res.json\<close> writes as \<^verbatim>\<open>null\<close>. The
  quotient of two numbers of different sign is the negated quotient of their sizes.
\<close>

definition ceilQuotient :: "int \<Rightarrow> int \<Rightarrow> int option" where
  "ceilQuotient a b =
     (if b = 0 then None
      else if a = 0 then Some 0
      else (case divideDoubles \<bar>a\<bar> \<bar>b\<bar> of
              None \<Rightarrow> None
            | Some v \<Rightarrow>
                Some (if (0 < a) = (0 < b) then ceilDouble v else - floorDouble v)))"

definition sendPaginated :: "string \<Rightarrow> 'a list \<Rightarrow> pagination \<Rightarrow> 'a list httpResponse" where
  "sendPaginated msg items p =
     (let pages = ceilQuotient (total p) (limit p)
      in sendSuccess msg (Some items) (Some 200)
           (Some \<lparr>page = page p, limit = limit p, total = total p, totalPages = pages\<rparr>))"

section \<open>Configuration (config/index)\<close>

text \<open>The fields of the configuration this layer reads, from \<^verbatim>\<open>NODE_ENV\<close>.\<close>

record config =
  env :: string
  isDevelopment :: bool
  isProduction :: bool
  isTest :: bool

definition loadConfig :: "string option \<Rightarrow> config" where
  "loadConfig nodeEnv =
     \<lparr>env = (case nodeEnv of None \<Rightarrow> ''development''
              | Some e \<Rightarrow> if e = [] then ''development'' else e),
      isDevelopment = (nodeEnv = Some ''development''),
      isProduction = (nodeEnv = Some ''production''),
      isTest = (nodeEnv = Some ''test'')\<rparr>"

section \<open>The global error handler (middleware/errorHandler)\<close>

text \<open>
  The handler first writes the error to the logger, which has no part in the response,
  and then answers by the first branch that applies. The value is the response written.
\<close>

definition errorHandler :: "config \<Rightarrow> jsError \<Rightarrow> 'a httpResponse" where
  "errorHandler cfg err =
     (if instanceOf err AppErrorPrototype then
        (if instanceOf err ValidationErrorPrototype
         then sendError (message err) (statusCode err) (errors err)
         else sendError (message err) (statusCode err) None)
      else if name err = ''PrismaClientKnownRequestError''
        then sendError ''Database operation failed'' (Some 400) None
      else if name err = ''PrismaClientValidationError''
        then sendError ''Invalid data provided'' (Some 400) None
      else if instanceOf err SyntaxErrorPrototype \<and> hasBody err
        then sendError ''Invalid JSON payload'' (Some 400) None
      else sendError
             (if isProduction cfg then ''An unexpected error occurred'' else message err)
             (Some 500) None)"

text \<open>
  The errors that reach the last branch: none of the four conditions before it holds.
\<close>

definition unknownError :: "jsError \<Rightarrow> bool" where
  "unknownError err =
     (\<not> instanceOf err AppErrorPrototype
      \<and> name err \<noteq> ''PrismaClientKnownRequestError''
      \<and> name err \<noteq> ''PrismaClientValidationError''
      \<and> \<not> (instanceOf err SyntaxErrorPrototype \<and> hasBody err))"

section \<open>The health probe (modules/health, config/database)\<close>

datatype dbStatus = connected | disconnected

datatype overallStatus = healthy | unhealthy | degraded

record dbHealth =
  status :: dbStatus
  latency :: "int option"

record dependencies =
  database :: dbHealth

record memoryUsage =
  used :: int
  total :: int
  percentage :: "int option"

record healthStatus =
  status :: overallStatus
  timestamp :: string
  uptime :: real
  version :: string

record detailedHealthStatus = healthStatus +
  dependencies :: dependencies
  memory :: memoryUsage

text \<open>
  What the service reads from the process: the clock as an ISO string, the uptime, the
  package version of the environment, and the two heap sizes. The percentage is
  \<^verbatim>\<open>Math.round((used / total) * 100)\<close>, a double-precision product that exact
  arithmetic does not reproduce at every input, so it is read here as the number that
  expression yields for the two sizes (\<open>None\<close> when it is not finite).
\<close>

record processEnv =
  isoNow :: string
  processUptime :: real
  npm_package_version :: "string option"
  heapUsed :: int
  heapTotal :: int
  heapPercentage :: "int option"

text \<open>
  The database as the probe meets it: the module's handle (\<open>None\<close> before
  \<^verbatim>\<open>initializeDatabase\<close> has run), whether \<^verbatim>\<open>SELECT 1\<close> resolves on a handle, and
  the two readings of \<^verbatim>\<open>Date.now()\<close> around the query.
\<close>

record 'h dbProbe =
  prisma :: "'h option"
  queryRaw :: "'h \<Rightarrow> bool"
  startedAt :: int
  finishedAt :: int

definition getDatabase :: "'h option \<Rightarrow> jsError + 'h" where
  "getDatabase handle =
     (case handle of
        None \<Rightarrow>
          Inl (newError ErrorPrototype
                 ''Database not initialized. Call initializeDatabase first.'')
      | Some h \<Rightarrow> Inr h)"

definition getHealthStatus :: "processEnv \<Rightarrow> healthStatus" where
  "getHealthStatus pe =
     \<lparr>status = healthy, timestamp = isoNow pe, uptime = processUptime pe,
      version = (case npm_package_version pe of
                   None \<Rightarrow> ''1.0.0''
                 | Some v \<Rightarrow> if v = [] then ''1.0.0'' else v)\<rparr>"

text \<open>The \<^verbatim>\<open>try\<close> block of \<^verbatim>\<open>checkDatabase\<close>: either failure lands in its \<^verbatim>\<open>catch\<close>.\<close>

definition checkDatabase :: "'h dbProbe \<Rightarrow> dbHealth" where
  "checkDatabase p =
     (case getDatabase (prisma p) of
        Inl e \<Rightarrow> \<lparr>dbHealth.status = disconnected, latency = None\<rparr>
      | Inr h \<Rightarrow>
          if queryRaw p h
          then \<lparr>dbHealth.status = connected, latency = Some (finishedAt p - startedAt p)\<rparr>
          else \<lparr>dbHealth.status = disconnected, latency = None\<rparr>)"

definition getMemoryUsage :: "processEnv \<Rightarrow> memoryUsage" where
  "getMemoryUsage pe =
     \<lparr>used = heapUsed pe, total = heapTotal pe, percentage = heapPercentage pe\<rparr>"

definition determineOverallStatus :: "dbStatus list \<Rightarrow> overallStatus" where
  "determineOverallStatus statuses =
     (let disconnectedCount = length (filter (\<lambda>s. s = disconnected) statuses)
      in if disconnectedCount = length statuses then unhealthy
         else if disconnectedCount > 0 then degraded
         else healthy)"

definition getDetailedHealth :: "processEnv \<Rightarrow> 'h dbProbe \<Rightarrow> detailedHealthStatus" where
  "getDetailedHealth pe p =
     (let basicHealth = getHealthStatus pe;
          dbHealth = checkDatabase p;
          memoryUsage = getMemoryUsage pe;
          overallStatus = determineOverallStatus [dbHealth.status dbHealth]
      in \<lparr>status = overallStatus, timestamp = timestamp basicHealth,
          uptime = uptime basicHealth, version = version basicHealth,
          dependencies = \<lparr>database = dbHealth\<rparr>, memory = memoryUsage\<rparr>)"

fun statusText :: "overallStatus \<Rightarrow> string" where
  "statusText healthy = ''healthy''"
| "statusText unhealthy = ''unhealthy''"
| "statusText degraded = ''degraded''"

text \<open>The two handlers of \<^verbatim>\<open>HealthController\<close>.\<close>

definition check :: "processEnv \<Rightarrow> healthStatus httpResponse" where
  "check pe = sendSuccess ''Service is healthy'' (Some (getHealthStatus pe)) None None"

definition detailed :: "processEnv \<Rightarrow> 'h dbProbe \<Rightarrow> detailedHealthStatus httpResponse" where
  "detailed pe p =
     (let health = getDetailedHealth pe p;
          statusCode = (if status health = healthy then 200 else 503)
      in sendSuccess (''Service is '' @ statusText (status health)) (Some health)
           (Some statusCode) None)"

section \<open>Requests and the steps of a route\<close>

record user =
  id' :: string
  email :: string
  role :: string

text \<open>
  The parts of a request the steps read or write: the \<^verbatim>\<open>Authorization\<close> header, the
  identity a step may have attached, and the three sections a schema can be run on.
\<close>

record 'd request =
  authorization :: "string option"
  user :: "user option"
  body :: 'd
  query :: 'd
  params :: 'd

text \<open>
  What a step does with a request: call \<^verbatim>\<open>next()\<close> (with the request as the step
  leaves it), call \<^verbatim>\<open>next(err)\<close>, write the response itself, or throw.
\<close>

datatype 'r outcome =
    Next 'r
  | NextError jsError
  | Responded "unit httpResponse"
  | Thrown jsError

text \<open>
  Steps listed on a route run in order; a step that did not call \<^verbatim>\<open>next()\<close> ends
  the chain.
\<close>

fun andThen :: "'r outcome \<Rightarrow> ('r \<Rightarrow> 'r outcome) \<Rightarrow> 'r outcome" where
  "andThen (Next r) step = step r"
| "andThen (NextError e) step = NextError e"
| "andThen (Responded res) step = Responded res"
| "andThen (Thrown e) step = Thrown e"

section \<open>The validation step (middleware/validation)\<close>

datatype validationTarget = Body | Query | Params

fun getSection :: "validationTarget \<Rightarrow> 'd request \<Rightarrow> 'd" where
  "getSection Body req = body req"
| "getSection Query req = query req"
| "getSection Params req = params req"

fun setSection :: "validationTarget \<Rightarrow> 'd \<Rightarrow> 'd request \<Rightarrow> 'd request" where
  "setSection Body v req = req\<lparr>body := v\<rparr>"
| "setSection Query v req = req\<lparr>query := v\<rparr>"
| "setSection Params v req = req\<lparr>params := v\<rparr>"

text \<open>
  The schema library is a collaborator: a schema is what \<^verbatim>\<open>schema.validate\<close> returns
  for given options and data, an optional error with its details (each a path and a
  message, in the order the library found them) and the normalised value. Path
  segments are strings; an array index is its decimal numeral, as \<^verbatim>\<open>join\<close> renders it.
\<close>

record joiOptions =
  abortEarly :: bool
  stripUnknown :: bool

type_synonym detail = "string list \<times> string"

record 'd joiResult =
  error :: "detail list option"
  value' :: 'd

type_synonym 'd joiSchema = "joiOptions \<Rightarrow> 'd \<Rightarrow> 'd joiResult"

fun joinWith :: "string \<Rightarrow> string list \<Rightarrow> string" where
  "joinWith sep [] = []"
| "joinWith sep [x] = x"
| "joinWith sep (x # y # ys) = x @ sep @ joinWith sep (y # ys)"

text \<open>
  \<^verbatim>\<open>errors\<close> starts as the literal \<^verbatim>\<open>{}\<close>, an object whose prototype is
  \<^verbatim>\<open>Object.prototype\<close>: \<^verbatim>\<open>errors[key]\<close> finds an own property, or else a
  property of that prototype. Those are the names below; each holds a function or an
  object, so \<^verbatim>\<open>!errors[key]\<close> is false for them and the following
  \<^verbatim>\<open>errors[key].push(...)\<close> calls \<^verbatim>\<open>undefined\<close>, which throws a \<^verbatim>\<open>TypeError\<close>.
\<close>

definition objectPrototypeKeys :: "string list" where
  "objectPrototypeKeys =
     [''constructor'', ''__defineGetter__'', ''__defineSetter__'', ''hasOwnProperty'',
      ''__lookupGetter__'', ''__lookupSetter__'', ''isPrototypeOf'',
      ''propertyIsEnumerable'', ''toString'', ''valueOf'', ''__proto__'',
      ''toLocaleString'']"

definition TypeError :: "string \<Rightarrow> jsError" where
  "TypeError msg = (newError ForeignPrototype msg)\<lparr>name := ''TypeError''\<rparr>"

text \<open>
  An object enumerates its array-index keys first, in ascending order, and then its
  other string keys in the order they were created. An array index is the decimal
  numeral, without a leading zero, of an integer below \<open>2^32 - 1\<close>.
\<close>

definition isDigit :: "char \<Rightarrow> bool" where
  "isDigit c = (c \<in> set ''0123456789'')"

definition decimalValue :: "string \<Rightarrow> int" where
  "decimalValue s = foldl (\<lambda>n c. 10 * n + (of_char c - 48)) 0 s"

definition isArrayIndex :: "string \<Rightarrow> bool" where
  "isArrayIndex key =
     (key \<noteq> [] \<and> list_all isDigit key \<and> (key = ''0'' \<or> hd key \<noteq> CHR ''0'')
      \<and> decimalValue key < 4294967295)"

text \<open>\<^verbatim>\<open>errors[key] = []\<close> for a key the object does not have.\<close>

fun createProperty :: "string \<Rightarrow> fieldErrors \<Rightarrow> fieldErrors" where
  "createProperty key [] = [(key, [])]"
| "createProperty key ((k, ms) # rest) =
     (if isArrayIndex key \<and> (decimalValue key < decimalValue k \<or> \<not> isArrayIndex k)
      then (key, []) # (k, ms) # rest
      else (k, ms) # createProperty key rest)"

text \<open>\<^verbatim>\<open>errors[key].push(message)\<close> on an own property.\<close>

fun pushTo :: "string \<Rightarrow> string \<Rightarrow> fieldErrors \<Rightarrow> fieldErrors" where
  "pushTo key msg [] = []"
| "pushTo key msg ((k, ms) # rest) =
     (if k = key then (k, ms @ [msg]) # rest else (k, ms) # pushTo key msg rest)"

text \<open>The two statements of the callback on own properties: create if absent, push.\<close>

definition pushMessage :: "string \<Rightarrow> string \<Rightarrow> fieldErrors \<Rightarrow> fieldErrors" where
  "pushMessage key msg errs =
     pushTo key msg (if map_of errs key = None then createProperty key errs else errs)"

text \<open>The body of the \<^verbatim>\<open>forEach\<close> callback; \<open>Inl\<close> is the error it throws.\<close>

definition addDetail :: "fieldErrors \<Rightarrow> detail \<Rightarrow> jsError + fieldErrors" where
  "addDetail errs d =
     (let key = joinWith ''.'' (fst d)
      in if map_of errs key = None \<and> key \<in> set objectPrototypeKeys
         then Inl (TypeError ''errors[key].push is not a function'')
         else Inr (pushMessage key (snd d) errs))"

fun forEachDetail :: "detail list \<Rightarrow> fieldErrors \<Rightarrow> jsError + fieldErrors" where
  "forEachDetail [] errs = Inr errs"
| "forEachDetail (d # ds) errs =
     (case addDetail errs d of
        Inl e \<Rightarrow> Inl e
      | Inr errs' \<Rightarrow> forEachDetail ds errs')"

definition validate ::
  "'d joiSchema \<Rightarrow> validationTarget option \<Rightarrow> 'd request \<Rightarrow> 'd request outcome" where
  "validate schema target req =
     (let t = orDefault target Body;
          dat = getSection t req;
          result = schema \<lparr>abortEarly = False, stripUnknown = True\<rparr> dat
      in case error result of
           Some details \<Rightarrow>
             (case forEachDetail details [] of
                Inl e \<Rightarrow> Thrown e
              | Inr errs \<Rightarrow> NextError (ValidationError (Some ''Validation failed'') (Some errs)))
         | None \<Rightarrow> Next (setSection t (value' result) req))"

section \<open>The authentication steps (middleware/auth)\<close>

text \<open>\<^verbatim>\<open>String.prototype.split\<close> on a one-character separator, and reading an index.\<close>

fun splitOn :: "char \<Rightarrow> string \<Rightarrow> string list" where
  "splitOn sep [] = [[]]"
| "splitOn sep (c # cs) =
     (if c = sep then [] # splitOn sep cs
      else (case splitOn sep cs of
              [] \<Rightarrow> [[c]]
            | w # ws \<Rightarrow> (c # w) # ws))"

fun elementAt :: "'a list \<Rightarrow> nat \<Rightarrow> 'a option" where
  "elementAt [] i = None"
| "elementAt (x # xs) 0 = Some x"
| "elementAt (x # xs) (Suc i) = elementAt xs i"

text \<open>
  The \<^verbatim>\<open>try\<close> block of \<^verbatim>\<open>authenticate\<close> throws on a missing or malformed header
  and on an empty token, and its \<^verbatim>\<open>catch\<close> passes what was thrown to \<^verbatim>\<open>next\<close>.
  Between the two checks the source has no statement: the verification of the token and
  the assignment to \<^verbatim>\<open>req.user\<close> are a comment.
\<close>

definition authenticate :: "'d request \<Rightarrow> 'd request outcome" where
  "authenticate req =
     (case authorization req of
        None \<Rightarrow> NextError (UnauthorizedError (Some ''No token provided'') None)
      | Some authHeader \<Rightarrow>
          if authHeader = [] \<or> \<not> prefix ''Bearer '' authHeader
          then NextError (UnauthorizedError (Some ''No token provided'') None)
          else (case elementAt (splitOn CHR '' '' authHeader) 1 of
                  None \<Rightarrow> NextError (UnauthorizedError (Some ''Invalid token'') None)
                | Some token \<Rightarrow>
                    if token = []
                    then NextError (UnauthorizedError (Some ''Invalid token'') None)
                    else Next req))"

definition authorize :: "string list \<Rightarrow> 'd request \<Rightarrow> 'd request outcome" where
  "authorize allowedRoles req =
     (case user req of
        None \<Rightarrow> NextError (UnauthorizedError (Some ''User not authenticated'') None)
      | Some u \<Rightarrow>
          if role u \<notin> set allowedRoles
          then NextError (UnauthorizedError (Some ''Insufficient permissions'') None)
          else Next req)"

definition optionalAuth :: "'d request \<Rightarrow> 'd request outcome" where
  "optionalAuth req = Next req"

section \<open>Properties of the taxonomy\<close>

lemma orDefault_simps:
  "orDefault None d = d"
  "orDefault (Some x) d = x"
  by (simp_all add: orDefault_def)

lemma AppError_fields:
  "AppError t m s c b =
     \<lparr>proto = AppErrorPrototype, name = ''Error'', message = m,
      statusCode = Some (orDefault s 500), code = Some (orDefault c ''INTERNAL_ERROR''),
      isOperational = Some (orDefault b True), errors = None, hasBody = False\<rparr>"
  by (simp add: AppError_def newError_def)

lemmas taxonomy_defs =
  BadRequestError_def UnauthorizedError_def ForbiddenError_def NotFoundError_def
  ConflictError_def ValidationError_def TooManyRequestsError_def InternalServerError_def

lemma taxonomy_defaults:
  "BadRequestError None None =
     \<lparr>proto = AppErrorPrototype, name = ''Error'', message = ''Bad Request'',
      statusCode = Some 400, code = Some ''BAD_REQUEST'', isOperational = Some True,
      errors = None, hasBody = False\<rparr>"
  "UnauthorizedError None None =
     \<lparr>proto = AppErrorPrototype, name = ''Error'', message = ''Unauthorized'',
      statusCode = Some 401, code = Some ''UNAUTHORIZED'', isOperational = Some True,
      errors = None, hasBody = False\<rparr>"
  "ForbiddenError None None =
     \<lparr>proto = AppErrorPrototype, name = ''Error'', message = ''Forbidden'',
      statusCode = Some 403, code = Some ''FORBIDDEN'', isOperational = Some True,
      errors = None, hasBody = False\<rparr>"
  "NotFoundError None None =
     \<lparr>proto = AppErrorPrototype, name = ''Error'', message = ''Not Found'',
      statusCode = Some 404, code = Some ''NOT_FOUND'', isOperational = Some True,
      errors = None, hasBody = False\<rparr>"
  "ConflictError None None =
     \<lparr>proto = AppErrorPrototype, name = ''Error'', message = ''Conflict'',
      statusCode = Some 409, code = Some ''CONFLICT'', isOperational = Some True,
      errors = None, hasBody = False\<rparr>"
  "ValidationError None None =
     \<lparr>proto = AppErrorPrototype, name = ''Error'', message = ''Validation Error'',
      statusCode = Some 422, code = Some ''VALIDATION_ERROR'', isOperational = Some True,
      errors = Some [], hasBody = False\<rparr>"
  "TooManyRequestsError None None =
     \<lparr>proto = AppErrorPrototype, name = ''Error'', message = ''Too Many Requests'',
      statusCode = Some 429, code = Some ''RATE_LIMITED'', isOperational = Some True,
      errors = None, hasBody = False\<rparr>"
  "InternalServerError None None =
     \<lparr>proto = AppErrorPrototype, name = ''Error'', message = ''Internal Server Error'',
      statusCode = Some 500, code = Some ''INTERNAL_ERROR'', isOperational = Some False,
      errors = None, hasBody = False\<rparr>"
  by (simp_all add: taxonomy_defs AppError_fields orDefault_simps)

lemma taxonomy_overrides:
  "message (BadRequestError (Some m) co) = m"
  "code (BadRequestError mo (Some c)) = Some c"
  "message (UnauthorizedError (Some m) co) = m"
  "code (UnauthorizedError mo (Some c)) = Some c"
  "message (ForbiddenError (Some m) co) = m"
  "code (ForbiddenError mo (Some c)) = Some c"
  "message (NotFoundError (Some m) co) = m"
  "code (NotFoundError mo (Some c)) = Some c"
  "message (ConflictError (Some m) co) = m"
  "code (ConflictError mo (Some c)) = Some c"
  "message (ValidationError (Some m) eo) = m"
  "code (ValidationError mo eo) = Some ''VALIDATION_ERROR''"
  "errors (ValidationError mo (Some es)) = Some es"
  "message (TooManyRequestsError (Some m) co) = m"
  "code (TooManyRequestsError mo (Some c)) = Some c"
  "message (InternalServerError (Some m) co) = m"
  "code (InternalServerError mo (Some c)) = Some c"
  by (simp_all add: taxonomy_defs AppError_fields orDefault_simps)

lemma taxonomy_status:
  "statusCode (BadRequestError mo co) = Some 400"
  "statusCode (UnauthorizedError mo co) = Some 401"
  "statusCode (ForbiddenError mo co) = Some 403"
  "statusCode (NotFoundError mo co) = Some 404"
  "statusCode (ConflictError mo co) = Some 409"
  "statusCode (ValidationError mo eo) = Some 422"
  "statusCode (TooManyRequestsError mo co) = Some 429"
  "statusCode (InternalServerError mo co) = Some 500"
  by (simp_all add: taxonomy_defs AppError_fields orDefault_simps)

lemma taxonomy_operational:
  "isOperational (BadRequestError mo co) = Some True"
  "isOperational (UnauthorizedError mo co) = Some True"
  "isOperational (ForbiddenError mo co) = Some True"
  "isOperational (NotFoundError mo co) = Some True"
  "isOperational (ConflictError mo co) = Some True"
  "isOperational (ValidationError mo eo) = Some True"
  "isOperational (TooManyRequestsError mo co) = Some True"
  "isOperational (InternalServerError mo co) = Some False"
  by (simp_all add: taxonomy_defs AppError_fields orDefault_simps)

text \<open>
  Claim C3. Called with no arguments, each constructor of the taxonomy gives the status,
  code and message of the table (the validation kind with an empty field-error map).
  Each kind takes an overriding message and, the validation kind apart, an overriding
  code; the validation kind takes a field-error map instead. Whatever the arguments, the
  status is the kind's own and \<open>isOperational\<close> is true, except for the internal-server
  kind, where it is false.
\<close>

theorem taxonomy_table:
  "(BadRequestError None None =
      \<lparr>proto = AppErrorPrototype, name = ''Error'', message = ''Bad Request'',
       statusCode = Some 400, code = Some ''BAD_REQUEST'', isOperational = Some True,
       errors = None, hasBody = False\<rparr>
    \<and> UnauthorizedError None None =
      \<lparr>proto = AppErrorPrototype, name = ''Error'', message = ''Unauthorized'',
       statusCode = Some 401, code = Some ''UNAUTHORIZED'', isOperational = Some True,
       errors = None, hasBody = False\<rparr>
    \<and> ForbiddenError None None =
      \<lparr>proto = AppErrorPrototype, name = ''Error'', message = ''Forbidden'',
       statusCode = Some 403, code = Some ''FORBIDDEN'', isOperational = Some True,
       errors = None, hasBody = False\<rparr>
    \<and> NotFoundError None None =
      \<lparr>proto = AppErrorPrototype, name = ''Error'', message = ''Not Found'',
       statusCode = Some 404, code = Some ''NOT_FOUND'', isOperational = Some True,
       errors = None, hasBody = False\<rparr>
    \<and> ConflictError None None =
      \<lparr>proto = AppErrorPrototype, name = ''Error'', message = ''Conflict'',
       statusCode = Some 409, code = Some ''CONFLICT'', isOperational = Some True,
       errors = None, hasBody = False\<rparr>
    \<and> ValidationError None None =
      \<lparr>proto = AppErrorPrototype, name = ''Error'', message = ''Validation Error'',
       statusCode = Some 422, code = Some ''VALIDATION_ERROR'', isOperational = Some True,
       errors = Some [], hasBody = False\<rparr>
    \<and> TooManyRequestsError None None =
      \<lparr>proto = AppErrorPrototype, name = ''Error'', message = ''Too Many Requests'',
       statusCode = Some 429, code = Some ''RATE_LIMITED'', isOperational = Some True,
       errors = None, hasBody = False\<rparr>
    \<and> InternalServerError None None =
      \<lparr>proto = AppErrorPrototype, name = ''Error'', message = ''Internal Server Error'',
       statusCode = Some 500, code = Some ''INTERNAL_ERROR'', isOperational = Some False,
       errors = None, hasBody = False\<rparr>)
   \<and> (message (BadRequestError (Some m) co) = m
    \<and> message (UnauthorizedError (Some m) co) = m
    \<and> message (ForbiddenError (Some m) co) = m
    \<and> message (NotFoundError (Some m) co) = m
    \<and> message (ConflictError (Some m) co) = m
    \<and> message (ValidationError (Some m) eo) = m
    \<and> message (TooManyRequestsError (Some m) co) = m
    \<and> message (InternalServerError (Some m) co) = m)
   \<and> (code (BadRequestError mo (Some c)) = Some c
    \<and> code (UnauthorizedError mo (Some c)) = Some c
    \<and> code (ForbiddenError mo (Some c)) = Some c
    \<and> code (NotFoundError mo (Some c)) = Some c
    \<and> code (ConflictError mo (Some c)) = Some c
    \<and> code (ValidationError mo eo) = Some ''VALIDATION_ERROR''
    \<and> errors (ValidationError mo (Some es)) = Some es
    \<and> code (TooManyRequestsError mo (Some c)) = Some c
    \<and> code (InternalServerError mo (Some c)) = Some c)
   \<and> (statusCode (BadRequestError mo co) = Some 400
    \<and> statusCode (UnauthorizedError mo co) = Some 401
    \<and> statusCode (ForbiddenError mo co) = Some 403
    \<and> statusCode (NotFoundError mo co) = Some 404
    \<and> statusCode (ConflictError mo co) = Some 409
    \<and> statusCode (ValidationError mo eo) = Some 422
    \<and> statusCode (TooManyRequestsError mo co) = Some 429
    \<and> statusCode (InternalServerError mo co) = Some 500)
   \<and> (isOperational (BadRequestError mo co) = Some True
    \<and> isOperational (UnauthorizedError mo co) = Some True
    \<and> isOperational (ForbiddenError mo co) = Some True
    \<and> isOperational (NotFoundError mo co) = Some True
    \<and> isOperational (ConflictError mo co) = Some True
    \<and> isOperational (ValidationError mo eo) = Some True
    \<and> isOperational (TooManyRequestsError mo co) = Some True
    \<and> isOperational (InternalServerError mo co) = Some False)"
  by (simp only: taxonomy_defaults taxonomy_overrides taxonomy_status taxonomy_operational
        simp_thms)

text \<open>
  Since the constructor of \<^verbatim>\<open>AppError\<close> resets the prototype, a value built by any
  class of the taxonomy is an instance of \<^verbatim>\<open>AppError\<close> and of no subclass.
\<close>

lemma instanceOf_AppError:
  "instanceOf (AppError t m s c b) cls = (cls = AppErrorPrototype \<or> cls = ErrorPrototype)"
  by (auto simp add: instanceOf_def AppError_fields)

lemma ValidationError_not_instanceOf:
  "\<not> instanceOf (ValidationError mo eo) ValidationErrorPrototype"
  by (simp add: instanceOf_def ValidationError_def AppError_fields)

section \<open>Properties of the global error handler\<close>

text \<open>The branches of the handler, each under the conditions that select it.\<close>

lemma errorHandler_validation:
  "instanceOf err AppErrorPrototype \<Longrightarrow> instanceOf err ValidationErrorPrototype \<Longrightarrow>
     errorHandler cfg err = sendError (message err) (statusCode err) (errors err)"
  by (simp add: errorHandler_def)

lemma errorHandler_taxonomy:
  "instanceOf err AppErrorPrototype \<Longrightarrow> \<not> instanceOf err ValidationErrorPrototype \<Longrightarrow>
     errorHandler cfg err = sendError (message err) (statusCode err) None"
  by (simp add: errorHandler_def)

lemma errorHandler_known_request:
  "\<not> instanceOf err AppErrorPrototype \<Longrightarrow> name err = ''PrismaClientKnownRequestError'' \<Longrightarrow>
     errorHandler cfg err = sendError ''Database operation failed'' (Some 400) None"
  by (simp add: errorHandler_def)

lemma errorHandler_db_validation:
  "\<not> instanceOf err AppErrorPrototype \<Longrightarrow> name err = ''PrismaClientValidationError'' \<Longrightarrow>
     errorHandler cfg err = sendError ''Invalid data provided'' (Some 400) None"
  by (simp add: errorHandler_def)

lemma errorHandler_syntax:
  "\<not> instanceOf err AppErrorPrototype \<Longrightarrow> name err \<noteq> ''PrismaClientKnownRequestError'' \<Longrightarrow>
   name err \<noteq> ''PrismaClientValidationError'' \<Longrightarrow>
   instanceOf err SyntaxErrorPrototype \<Longrightarrow> hasBody err \<Longrightarrow>
     errorHandler cfg err = sendError ''Invalid JSON payload'' (Some 400) None"
  by (simp add: errorHandler_def)

lemma errorHandler_unknown:
  "unknownError err \<Longrightarrow>
     errorHandler cfg err =
       sendError (if isProduction cfg then ''An unexpected error occurred'' else message err)
         (Some 500) None"
  by (auto simp add: errorHandler_def unknownError_def)

text \<open>
  What the handler writes for a value built by \<^verbatim>\<open>new ValidationError(...)\<close>, whatever
  its arguments: the branch of the other taxonomy members, with no \<open>errors\<close> key.
\<close>

lemma errorHandler_ValidationError:
  "errorHandler cfg (ValidationError mo eo) =
     \<lparr>httpStatus = 422,
      jsonBody = [(''success'', JBool False),
                  (''message'', JString (orDefault mo ''Validation Error''))]\<rparr>"
  by (simp add: errorHandler_def ValidationError_def AppError_fields orDefault_simps
        instanceOf_def sendError_def)

text \<open>
  Claim C1. The handler answers a validation error with the error's status, message and
  field-error map. The documented error response shows the message
  \<^verbatim>\<open>Validation failed\<close> with its \<^verbatim>\<open>errors\<close> map. On the code, an error built by
  \<^verbatim>\<open>new ValidationError(...)\<close> carries the map but is no instance of
  \<^verbatim>\<open>ValidationError\<close>, so the handler takes the branch of the other taxonomy members
  and writes status 422 and the message without the map.
\<close>

theorem errorHandler_drops_field_errors:
  "errors (ValidationError (Some ''Validation failed'')
             (Some [(''email'', [''Email is required''])]))
     = Some [(''email'', [''Email is required''])]
   \<and> instanceOf (ValidationError (Some ''Validation failed'')
                   (Some [(''email'', [''Email is required''])])) AppErrorPrototype
   \<and> \<not> instanceOf (ValidationError (Some ''Validation failed'')
                     (Some [(''email'', [''Email is required''])])) ValidationErrorPrototype
   \<and> errorHandler cfg
        (ValidationError (Some ''Validation failed'')
           (Some [(''email'', [''Email is required''])]))
     = \<lparr>httpStatus = 422,
        jsonBody = [(''success'', JBool False), (''message'', JString ''Validation failed'')]\<rparr>"
  by (simp add: errorHandler_def ValidationError_def AppError_fields orDefault_simps
        instanceOf_def sendError_def)

text \<open>
  Claim C2. An error that falls through to the last branch is answered with status 500.
  In production the message is the fixed text, whatever the error said, so two such
  errors get the same response; outside production the message is the error's own.
\<close>

theorem unknown_error_response:
  "unknownError err \<Longrightarrow> unknownError err' \<Longrightarrow>
   (isProduction cfg \<longrightarrow>
      errorHandler cfg err =
        \<lparr>httpStatus = 500,
         jsonBody = [(''success'', JBool False),
                     (''message'', JString ''An unexpected error occurred'')]\<rparr>
      \<and> errorHandler cfg err = errorHandler cfg err')
   \<and> (\<not> isProduction cfg \<longrightarrow>
      errorHandler cfg err =
        \<lparr>httpStatus = 500,
         jsonBody = [(''success'', JBool False), (''message'', JString (message err))]\<rparr>)"
  by (simp add: errorHandler_unknown sendError_def orDefault_simps)

theorem unknown_error_response_witness:
  "unknownError (newError ErrorPrototype ''boom'')
   \<and> unknownError (newError ErrorPrototype ''bang'')
   \<and> isProduction (loadConfig (Some ''production''))
   \<and> errorHandler (loadConfig (Some ''production'')) (newError ErrorPrototype ''boom'')
       = (\<lparr>httpStatus = 500,
           jsonBody = [(''success'', JBool False),
                       (''message'', JString ''An unexpected error occurred'')]\<rparr>
          :: unit httpResponse)
   \<and> (errorHandler (loadConfig (Some ''production'')) (newError ErrorPrototype ''boom'')
        :: unit httpResponse)
       = errorHandler (loadConfig (Some ''production'')) (newError ErrorPrototype ''bang'')
   \<and> \<not> isProduction (loadConfig None)
   \<and> errorHandler (loadConfig None) (newError ErrorPrototype ''boom'')
       = (\<lparr>httpStatus = 500,
           jsonBody = [(''success'', JBool False), (''message'', JString ''boom'')]\<rparr>
          :: unit httpResponse)"
proof -
  have u1: "unknownError (newError ErrorPrototype ''boom'')"
    by (simp add: unknownError_def newError_def instanceOf_def)
  have u2: "unknownError (newError ErrorPrototype ''bang'')"
    by (simp add: unknownError_def newError_def instanceOf_def)
  have p: "isProduction (loadConfig (Some ''production''))"
    by (simp add: loadConfig_def)
  have d: "\<not> isProduction (loadConfig None)"
    by (simp add: loadConfig_def)
  have m: "message (newError ErrorPrototype ''boom'') = ''boom''"
    by (simp add: newError_def)
  have t1:
    "isProduction (loadConfig (Some ''production'')) \<longrightarrow>
       errorHandler (loadConfig (Some ''production'')) (newError ErrorPrototype ''boom'')
         = (\<lparr>httpStatus = 500,
             jsonBody = [(''success'', JBool False),
                         (''message'', JString ''An unexpected error occurred'')]\<rparr>
            :: unit httpResponse)
       \<and> (errorHandler (loadConfig (Some ''production'')) (newError ErrorPrototype ''boom'')
            :: unit httpResponse)
         = errorHandler (loadConfig (Some ''production'')) (newError ErrorPrototype ''bang'')"
    using unknown_error_response [OF u1 u2] by (rule conjunct1)
  have t2:
    "\<not> isProduction (loadConfig None) \<longrightarrow>
       errorHandler (loadConfig None) (newError ErrorPrototype ''boom'')
         = (\<lparr>httpStatus = 500,
             jsonBody = [(''success'', JBool False),
                         (''message'', JString (message (newError ErrorPrototype ''boom'')))]\<rparr>
            :: unit httpResponse)"
    using unknown_error_response [OF u1 u2] by (rule conjunct2)
  show ?thesis
    using u1 u2 p d t1 t2 unfolding m by auto
qed

text \<open>What every response written by \<open>sendError\<close> holds.\<close>

lemma sendError_no_code: "map_of (jsonBody (sendError m s e)) ''code'' = None"
  by (simp add: sendError_def split: option.splits)

lemma sendError_keys:
  "map fst (jsonBody (sendError m s e)) =
     (case e of None \<Rightarrow> [''success'', ''message'']
      | Some x \<Rightarrow> [''success'', ''message'', ''errors''])"
  by (simp add: sendError_def split: option.splits)

lemma sendError_status:
  "httpStatus (sendError m s e) = (case s of None \<Rightarrow> 500 | Some n \<Rightarrow> n)"
  by (simp add: sendError_def orDefault_def)

text \<open>
  Claim C7, as amended. Every error that reaches the handler is answered with an HTTP
  status: the error's own \<open>statusCode\<close> for an instance of \<^verbatim>\<open>AppError\<close> (500 when it
  has none), 400 for the database and body-parse shapes, 500 for an error of unknown
  shape. The body holds \<open>success\<close>, \<open>message\<close> and at most \<open>errors\<close>: no \<open>code\<close> is
  written for any error, and none is attached to an error of unknown shape.
\<close>

theorem error_response_status_without_code:
  "map_of (jsonBody (errorHandler cfg err)) ''code'' = None
   \<and> (map fst (jsonBody (errorHandler cfg err)) = [''success'', ''message'']
      \<or> map fst (jsonBody (errorHandler cfg err)) = [''success'', ''message'', ''errors''])
   \<and> (unknownError err \<longrightarrow> httpStatus (errorHandler cfg err) = 500)
   \<and> (instanceOf err AppErrorPrototype \<longrightarrow>
        httpStatus (errorHandler cfg err) =
          (case statusCode err of None \<Rightarrow> 500 | Some s \<Rightarrow> s))
   \<and> (\<not> instanceOf err AppErrorPrototype \<and> \<not> unknownError err \<longrightarrow>
        httpStatus (errorHandler cfg err) = 400)"
proof -
  have a: "map_of (jsonBody (errorHandler cfg err)) ''code'' = None"
    by (simp add: errorHandler_def sendError_no_code)
  have b: "map fst (jsonBody (errorHandler cfg err)) = [''success'', ''message'']
      \<or> map fst (jsonBody (errorHandler cfg err)) = [''success'', ''message'', ''errors'']"
    by (simp add: errorHandler_def sendError_keys split: option.splits)
  have c: "unknownError err \<longrightarrow> httpStatus (errorHandler cfg err) = 500"
    by (simp add: errorHandler_unknown sendError_status)
  have d: "instanceOf err AppErrorPrototype \<longrightarrow>
        httpStatus (errorHandler cfg err) =
          (case statusCode err of None \<Rightarrow> 500 | Some s \<Rightarrow> s)"
    by (simp add: errorHandler_def sendError_status)
  have e: "\<not> instanceOf err AppErrorPrototype \<and> \<not> unknownError err \<longrightarrow>
        httpStatus (errorHandler cfg err) = 400"
    by (auto simp add: errorHandler_def unknownError_def sendError_status)
  show ?thesis using a b c d e by blast
qed

theorem error_response_status_without_code_witness:
  "unknownError (newError ErrorPrototype ''boom'')
   \<and> httpStatus (errorHandler (loadConfig None) (newError ErrorPrototype ''boom'')
        :: unit httpResponse) = 500
   \<and> instanceOf (NotFoundError None None) AppErrorPrototype
   \<and> code (NotFoundError None None) = Some ''NOT_FOUND''
   \<and> httpStatus (errorHandler (loadConfig None) (NotFoundError None None)
        :: unit httpResponse) = 404
   \<and> map_of (jsonBody (errorHandler (loadConfig None) (NotFoundError None None)
        :: unit httpResponse)) ''code'' = None"
proof -
  have u: "unknownError (newError ErrorPrototype ''boom'')"
    by (simp add: unknownError_def newError_def instanceOf_def)
  have i: "instanceOf (NotFoundError None None) AppErrorPrototype"
    by (simp add: NotFoundError_def instanceOf_AppError)
  have f: "code (NotFoundError None None) = Some ''NOT_FOUND''"
      "statusCode (NotFoundError None None) = Some 404"
    by (simp_all add: taxonomy_defaults)
  have t1: "httpStatus (errorHandler (loadConfig None) (newError ErrorPrototype ''boom'')
        :: unit httpResponse) = 500"
    using error_response_status_without_code
      [of "loadConfig None" "newError ErrorPrototype ''boom''"] u by blast
  have t2: "httpStatus (errorHandler (loadConfig None) (NotFoundError None None)
        :: unit httpResponse) = 404
      \<and> map_of (jsonBody (errorHandler (loadConfig None) (NotFoundError None None)
        :: unit httpResponse)) ''code'' = None"
    using error_response_status_without_code
      [of "loadConfig None" "NotFoundError None None"] i f(2) by auto
  show ?thesis using u i f(1) t1 t2 by blast
qed

text \<open>
  The claim as stated fails on a plain \<^verbatim>\<open>new Error('boom')\<close> outside production: it is
  an error of unknown shape, it has no \<open>code\<close>, and the response written for it has
  status 500 and a body of \<open>success\<close> and \<open>message\<close> only, with no \<open>code\<close>.
\<close>

theorem unknown_error_carries_no_code:
  "unknownError (newError ErrorPrototype ''boom'')
   \<and> code (newError ErrorPrototype ''boom'') = None
   \<and> httpStatus (errorHandler (loadConfig None) (newError ErrorPrototype ''boom'')
        :: unit httpResponse) = 500
   \<and> map_of (jsonBody (errorHandler (loadConfig None) (newError ErrorPrototype ''boom'')
        :: unit httpResponse)) ''code'' = None
   \<and> jsonBody (errorHandler (loadConfig None) (newError ErrorPrototype ''boom'')
        :: unit httpResponse)
       = [(''success'', JBool False), (''message'', JString ''boom'')]"
  by (simp add: unknownError_def newError_def instanceOf_def errorHandler_def
        loadConfig_def sendError_def orDefault_simps)

section \<open>Properties of the paginated response\<close>

lemma ceil_div_unique:
  fixes a b n :: int
  assumes "1 \<le> b" "a \<le> n * b" "(n - 1) * b < a"
  shows "(a + b - 1) div b = n"
proof (rule int_div_pos_eq)
  show "a + b - 1 = b * n + (a + b - 1 - n * b)" by simp
  have e: "(n - 1) * b = n * b - b" by (simp add: left_diff_distrib)
  show "0 \<le> a + b - 1 - n * b" using assms(3) unfolding e by linarith
  show "a + b - 1 - n * b < b" using assms(2) by linarith
qed

lemma ceil_bounds:
  fixes a b :: int
  assumes "1 \<le> b"
  shows "a \<le> \<lceil>real_of_int a / real_of_int b\<rceil> * b
       \<and> (\<lceil>real_of_int a / real_of_int b\<rceil> - 1) * b < a"
proof -
  let ?n = "\<lceil>real_of_int a / real_of_int b\<rceil>"
  have b0: "0 < real_of_int b" using assms by simp
  have c: "real_of_int ?n - 1 < real_of_int a / real_of_int b
      \<and> real_of_int a / real_of_int b \<le> real_of_int ?n"
    by (rule ceiling_correct)
  from c have "real_of_int a \<le> real_of_int ?n * real_of_int b"
    using b0 by (simp only: pos_divide_le_eq)
  then have "real_of_int a \<le> real_of_int (?n * b)" by (simp only: of_int_mult)
  then have u: "a \<le> ?n * b" by (simp only: of_int_le_iff)
  from c have "(real_of_int ?n - 1) * real_of_int b < real_of_int a"
    using b0 by (simp only: pos_less_divide_eq)
  then have "real_of_int ((?n - 1) * b) < real_of_int a"
    by (simp only: of_int_mult of_int_diff of_int_1)
  then have l: "(?n - 1) * b < a" by (simp only: of_int_less_iff)
  show ?thesis using u l by (rule conjI)
qed

text \<open>Rounding to the nearest integer stays within a half of the quotient.\<close>

lemma roundHalfEven_bounds:
  assumes "0 < d"
  shows "2 * n - d \<le> 2 * (d * roundHalfEven n d)
       \<and> 2 * (d * roundHalfEven n d) \<le> 2 * n + d"
proof -
  define f where "f = n div d"
  define r where "r = n mod d"
  have n: "n = d * f + r" by (simp add: f_def r_def)
  have r: "0 \<le> r" "r < d" using assms by (simp_all add: r_def)
  have m: "roundHalfEven n d =
             (if 2 * r < d then f else if d < 2 * r then f + 1
              else if even f then f else f + 1)"
    by (simp add: roundHalfEven_def Let_def f_def r_def)
  have e: "d * (f + 1) = d * f + d" by (simp add: distrib_left)
  consider "roundHalfEven n d = f" "2 * r \<le> d" | "roundHalfEven n d = f + 1" "d \<le> 2 * r"
    unfolding m by (cases "2 * r < d"; cases "d < 2 * r"; cases "even f") simp_all
  then show ?thesis
  proof cases
    case 1
    then show ?thesis using n r by simp
  next
    case 2
    then show ?thesis using n r by (simp add: e)
  qed
qed

lemma roundHalfEven_le:
  assumes "0 < d" "n \<le> N * d"
  shows "roundHalfEven n d \<le> N"
proof (rule ccontr)
  assume "\<not> roundHalfEven n d \<le> N"
  then have "N + 1 \<le> roundHalfEven n d" by simp
  then have "d * (N + 1) \<le> d * roundHalfEven n d"
    using assms(1) by (intro mult_left_mono) simp_all
  then have "2 * (d * N) + 2 * d \<le> 2 * (d * roundHalfEven n d)"
    by (simp add: distrib_left)
  moreover have "2 * (d * roundHalfEven n d) \<le> 2 * n + d"
    using roundHalfEven_bounds [OF assms(1)] by blast
  moreover have "N * d = d * N" by simp
  ultimately show False using assms by linarith
qed

lemma roundHalfEven_gt:
  assumes "0 < d" "2 * (N * d) + d < 2 * n"
  shows "N < roundHalfEven n d"
proof (rule ccontr)
  assume "\<not> N < roundHalfEven n d"
  then have "roundHalfEven n d \<le> N" by simp
  then have "d * roundHalfEven n d \<le> d * N"
    using assms(1) by (intro mult_left_mono) simp_all
  moreover have "2 * n - d \<le> 2 * (d * roundHalfEven n d)"
    using roundHalfEven_bounds [OF assms(1)] by blast
  moreover have "N * d = d * N" by simp
  ultimately show False using assms by linarith
qed

lemma ceil_div_eq:
  fixes m P c :: int
  assumes "0 < P" "(c - 1) * P < m" "m \<le> c * P"
  shows "- ((- m) div P) = c"
proof -
  have "(- m) div P = - c"
  proof (rule int_div_pos_eq)
    show "- m = P * (- c) + (c * P - m)" by simp
    show "0 \<le> c * P - m" using assms(3) by simp
    have "(c - 1) * P = c * P - P" by (simp add: left_diff_distrib)
    then show "c * P - m < P" using assms(2) by linarith
  qed
  then show ?thesis by simp
qed

lemma pow2_add:
  "0 \<le> i \<Longrightarrow> 0 \<le> j \<Longrightarrow> (2::int) ^ nat i * 2 ^ nat j = 2 ^ nat (i + j)"
  by (simp add: nat_add_distrib power_add)

lemma bitlen_range:
  assumes "1 \<le> x" "x < 2 ^ 53"
  shows "1 \<le> bitlen x \<and> bitlen x \<le> 53"
proof -
  have "bitlen x \<noteq> 0" using assms(1) by (simp add: bitlen_eq_zero_iff)
  then have "1 \<le> bitlen x" using bitlen_nonneg [of x] by linarith
  moreover have "bitlen x \<le> 53" using assms(2) by (simp add: bitlen_le_iff_power)
  ultimately show ?thesis by simp
qed

text \<open>The exponent chosen for the quotient is not above its binary logarithm.\<close>

lemma quotientExponent_lower:
  assumes a: "1 \<le> a" and b: "1 \<le> b"
  shows "scale b (quotientExponent a b) \<le> scale a (- quotientExponent a b)"
proof -
  define d where "d = bitlen a - bitlen b"
  have la: "2 ^ nat (bitlen a - 1) \<le> a" "a < 2 ^ nat (bitlen a)"
    using bitlen_bounds [of a] a by simp_all
  have lb: "2 ^ nat (bitlen b - 1) \<le> b" "b < 2 ^ nat (bitlen b)"
    using bitlen_bounds [of b] b by simp_all
  have pa: "1 \<le> bitlen a"
    using a bitlen_nonneg [of a] bitlen_eq_zero_iff [of a] by linarith
  have pb: "1 \<le> bitlen b"
    using b bitlen_nonneg [of b] bitlen_eq_zero_iff [of b] by linarith
  show ?thesis
  proof (cases "scale b d \<le> scale a (- d)")
    case True
    then show ?thesis by (simp add: quotientExponent_def Let_def d_def)
  next
    case False
    then have k: "quotientExponent a b = d - 1"
      by (simp add: quotientExponent_def Let_def d_def)
    show ?thesis
    proof (cases "1 \<le> d")
      case True
      have "b * 2 ^ nat (d - 1) < 2 ^ nat (bitlen b) * 2 ^ nat (d - 1)"
        using lb(2) by simp
      also have "\<dots> = 2 ^ nat (bitlen b + (d - 1))"
        using pb True by (intro pow2_add) simp_all
      also have "bitlen b + (d - 1) = bitlen a - 1" by (simp add: d_def)
      finally have "b * 2 ^ nat (d - 1) \<le> a" using la(1) by simp
      then show ?thesis using True by (simp add: k scale_def)
    next
      case False
      have "b < 2 ^ nat (bitlen b)" by (rule lb(2))
      also have "bitlen b = (bitlen a - 1) + (1 - d)" by (simp add: d_def)
      also have "(2::int) ^ nat (bitlen a - 1 + (1 - d)) =
                   2 ^ nat (bitlen a - 1) * 2 ^ nat (1 - d)"
        using pa False by (intro pow2_add [symmetric]) simp_all
      also have "\<dots> \<le> a * 2 ^ nat (1 - d)"
        using la(1) by (intro mult_right_mono) simp_all
      finally have "b \<le> a * 2 ^ nat (1 - d)" by simp
      then show ?thesis using False by (simp add: k scale_def)
    qed
  qed
qed

lemma quotientExponent_range:
  assumes "1 \<le> a" "a < 2 ^ 53" "1 \<le> b" "b < 2 ^ 53"
  shows "- 53 \<le> quotientExponent a b \<and> quotientExponent a b \<le> 52"
proof -
  have "1 \<le> bitlen a \<and> bitlen a \<le> 53" using assms(1,2) by (rule bitlen_range)
  moreover have "1 \<le> bitlen b \<and> bitlen b \<le> 53" using assms(3,4) by (rule bitlen_range)
  ultimately show ?thesis by (auto simp add: quotientExponent_def Let_def)
qed

lemma divisor_below_scale:
  assumes a: "1 \<le> a" "a < 2 ^ 53" and b: "1 \<le> b"
    and k: "k \<le> 52" and l: "scale b k \<le> scale a (- k)"
  shows "b < 2 * 2 ^ nat (52 - k)"
proof -
  have t: "(2::int) * 2 ^ nat (52 - k) = 2 ^ nat (53 - k)"
    using k pow2_add [of 1 "52 - k"] by simp
  show ?thesis
  proof (cases "0 \<le> k")
    case True
    have "b * 2 ^ nat k \<le> a" using l True by (simp add: scale_def)
    also have "a < 2 ^ 53" by (rule a(2))
    also have "(2::int) ^ 53 = 2 ^ nat (53 - k) * 2 ^ nat k"
      using True k pow2_add [of "53 - k" k] by simp
    finally have "b < 2 ^ nat (53 - k)" by simp
    then show ?thesis by (simp only: t)
  next
    case False
    have "b \<le> a * 2 ^ nat (- k)" using l False by (simp add: scale_def)
    also have "\<dots> < 2 ^ 53 * 2 ^ nat (- k)"
      using a(2) by (intro mult_strict_right_mono) simp_all
    also have "(2::int) ^ 53 * 2 ^ nat (- k) = 2 ^ nat (53 - k)"
      using False pow2_add [of 53 "- k"] by simp
    finally show ?thesis by (simp only: t)
  qed
qed

text \<open>
  For two integers of at least 1 and below \<open>2^53\<close> the double quotient has the ceiling
  of the exact quotient: the rounding error is below \<open>1 / b\<close>, the least distance of a
  quotient that is not an integer from the integer below it.
\<close>

lemma ceilQuotient_safe:
  assumes a: "1 \<le> a" "a < 2 ^ 53" and b: "1 \<le> b" "b < 2 ^ 53"
    and lo: "(c - 1) * b < a" and up: "a \<le> c * b"
  shows "ceilQuotient a b = Some c"
proof -
  define k where "k = quotientExponent a b"
  define P :: int where "P = 2 ^ nat (52 - k)"
  define m where "m = roundHalfEven (a * P) b"
  have kr: "- 53 \<le> k" "k \<le> 52"
    using quotientExponent_range [OF a b] by (simp_all add: k_def)
  have bP: "b < 2 * P"
    unfolding P_def
    using a b(1) kr(2) quotientExponent_lower [OF a(1) b(1)]
    unfolding k_def [symmetric] by (rule divisor_below_scale)
  have P0: "0 < P" by (simp add: P_def)
  have b0: "0 < b" using b(1) by simp
  have sa: "scale a (52 - k) = a * P" by (simp add: scale_def P_def)
  have sb: "scale b (k - 52) = b" using kr(2) by (simp add: scale_def)
  have "a * P \<le> c * b * P" using up P0 by (intro mult_right_mono) simp_all
  then have "a * P \<le> (c * P) * b" by (simp add: mult_ac)
  then have mu: "m \<le> c * P" unfolding m_def using b0 by (intro roundHalfEven_le)
  have "(c - 1) * b + 1 \<le> a" using lo by simp
  then have "((c - 1) * b + 1) * P \<le> a * P" using P0 by (intro mult_right_mono) simp_all
  then have "(c - 1) * P * b + P \<le> a * P"
    by (simp add: algebra_simps)
  then have "2 * ((c - 1) * P * b) + b < 2 * (a * P)" using bP by linarith
  then have ml: "(c - 1) * P < m" unfolding m_def using b0 by (intro roundHalfEven_gt)
  have ce: "- ((- m) div P) = c" using P0 ml mu by (rule ceil_div_eq)
  have "0 \<le> a * P" using a(1) P0 by simp
  then have "(a * P) * 1 \<le> (a * P) * b" using b(1) by (intro mult_left_mono)
  then have "a * P \<le> (a * P) * b" by simp
  then have "m \<le> a * P" unfolding m_def using b0 by (intro roundHalfEven_le)
  moreover have "P \<le> 2 ^ 105"
    unfolding P_def using kr(1) by (intro power_increasing_iff [THEN iffD2]) simp_all
  moreover have "a * P \<le> 2 ^ 53 * 2 ^ 105"
    using a calculation(2) P0 by (intro mult_mono) simp_all
  ultimately have fin: "m < 2 ^ 1024" by simp
  have sm: "scale m (k - 52) = m" using kr(2) by (simp add: scale_def)
  have dd: "divideDoubles a b = Some (m, k - 52)"
    using fin kr by (simp add: divideDoubles_def Let_def k_def [symmetric] sa sb
        m_def [symmetric] sm)
  have cd: "ceilDouble (m, k - 52) = c"
  proof (cases "k = 52")
    case True
    then have "P = 1" by (simp add: P_def)
    then show ?thesis using ce True by (simp add: ceilDouble_def scale_def)
  next
    case False
    then have "\<not> 0 \<le> k - 52" using kr(2) by simp
    moreover have "nat (- (k - 52)) = nat (52 - k)" by simp
    ultimately show ?thesis using ce by (simp add: ceilDouble_def P_def)
  qed
  show ?thesis
    using a(1) b(1) dd cd by (simp add: ceilQuotient_def)
qed

lemma ceilQuotient_pos:
  assumes b: "1 \<le> b" "b < 2 ^ 53" and a: "0 \<le> a" "a < 2 ^ 53"
  shows "\<exists>n. ceilQuotient a b = Some n \<and> n = \<lceil>real_of_int a / real_of_int b\<rceil>
           \<and> a \<le> n * b \<and> (n - 1) * b < a \<and> n = (a + b - 1) div b"
proof -
  let ?n = "\<lceil>real_of_int a / real_of_int b\<rceil>"
  have bd: "a \<le> ?n * b \<and> (?n - 1) * b < a" using b(1) by (rule ceil_bounds)
  have dv: "?n = (a + b - 1) div b"
    using ceil_div_unique [OF b(1) conjunct1 [OF bd] conjunct2 [OF bd]] by simp
  have q: "ceilQuotient a b = Some ?n"
  proof (cases "a = 0")
    case True
    then show ?thesis using b(1) by (simp add: ceilQuotient_def)
  next
    case False
    then have "1 \<le> a" using a(1) by simp
    then show ?thesis
      using a(2) b conjunct2 [OF bd] conjunct1 [OF bd] by (rule ceilQuotient_safe)
  qed
  show ?thesis using q bd dv by blast
qed

text \<open>
  Claim C4, as amended. For a limit and a total that are integers with
  \<open>1 \<le> limit < 2^53\<close> and \<open>0 \<le> total < 2^53\<close>, \<open>sendPaginated\<close> writes status 200 and
  a meta whose page, limit and total are the arguments and whose \<open>totalPages\<close> is the
  ceiling of total over limit: the one integer \<open>n\<close> with
  \<open>(n - 1) * limit < total \<le> n * limit\<close>, which is \<open>(total + limit - 1) div limit\<close>
  and is 0 when the total is 0. The caller passes no page count: it is computed from
  the two arguments.
\<close>

theorem sendPaginated_totalPages:
  "1 \<le> pagination.limit p \<Longrightarrow> pagination.limit p < 2 ^ 53 \<Longrightarrow>
   0 \<le> pagination.total p \<Longrightarrow> pagination.total p < 2 ^ 53 \<Longrightarrow>
   \<exists>n. sendPaginated msg items p =
         \<lparr>httpStatus = 200,
          jsonBody = [(''success'', JBool True), (''message'', JString msg),
                      (''data'', JData items),
                      (''meta'', JMeta \<lparr>page = page p, limit = limit p,
                                        pagination.total = pagination.total p,
                                        totalPages = Some n\<rparr>)]\<rparr>
       \<and> n = \<lceil>real_of_int (pagination.total p) / real_of_int (pagination.limit p)\<rceil>
       \<and> n = (pagination.total p + limit p - 1) div limit p
       \<and> pagination.total p \<le> n * limit p
       \<and> (n - 1) * limit p < pagination.total p
       \<and> 0 \<le> n
       \<and> (pagination.total p = 0 \<longrightarrow> n = 0)"
proof -
  assume l: "1 \<le> pagination.limit p" and lb: "pagination.limit p < 2 ^ 53"
    and t: "0 \<le> pagination.total p" and tb: "pagination.total p < 2 ^ 53"
  obtain n where q: "ceilQuotient (pagination.total p) (limit p) = Some n"
    and c: "n = \<lceil>real_of_int (pagination.total p) / real_of_int (pagination.limit p)\<rceil>"
    and u: "pagination.total p \<le> n * limit p"
    and lo: "(n - 1) * limit p < pagination.total p"
    and dv: "n = (pagination.total p + limit p - 1) div limit p"
    using ceilQuotient_pos [OF l lb t tb] by blast
  have r: "sendPaginated msg items p =
         \<lparr>httpStatus = 200,
          jsonBody = [(''success'', JBool True), (''message'', JString msg),
                      (''data'', JData items),
                      (''meta'', JMeta \<lparr>page = page p, limit = limit p,
                                        pagination.total = pagination.total p,
                                        totalPages = Some n\<rparr>)]\<rparr>"
    by (simp add: sendPaginated_def sendSuccess_def q orDefault_simps)
  have z: "pagination.total p = 0 \<longrightarrow> n = 0" using c by simp
  have nn: "0 \<le> n"
  proof (rule ccontr)
    assume "\<not> 0 \<le> n"
    then have "n \<le> -1" by simp
    then have "n * limit p \<le> -1 * limit p" using l by (intro mult_right_mono) simp_all
    then show False using u t l by linarith
  qed
  show ?thesis using r c dv u lo nn z by blast
qed

theorem sendPaginated_totalPages_witness:
  "1 \<le> pagination.limit \<lparr>page = 2, limit = 10, pagination.total = 21\<rparr>
   \<and> pagination.limit \<lparr>page = 2, limit = 10, pagination.total = 21\<rparr> < 2 ^ 53
   \<and> 0 \<le> pagination.total \<lparr>page = 2, limit = 10, pagination.total = 21\<rparr>
   \<and> pagination.total \<lparr>page = 2, limit = 10, pagination.total = 21\<rparr> < 2 ^ 53
   \<and> sendPaginated ''Products'' [''a'', ''b'']
        \<lparr>page = 2, limit = 10, pagination.total = 21\<rparr> =
        \<lparr>httpStatus = 200,
         jsonBody = [(''success'', JBool True), (''message'', JString ''Products''),
                     (''data'', JData [''a'', ''b'']),
                     (''meta'', JMeta \<lparr>page = 2, limit = 10, pagination.total = 21,
                                       totalPages = Some 3\<rparr>)]\<rparr>"
proof -
  let ?p = "\<lparr>page = 2, limit = 10, pagination.total = 21\<rparr>"
  have l: "1 \<le> pagination.limit ?p" by simp
  have lb: "pagination.limit ?p < 2 ^ 53" by simp
  have t: "0 \<le> pagination.total ?p" by simp
  have tb: "pagination.total ?p < 2 ^ 53" by simp
  obtain n where r: "sendPaginated ''Products'' [''a'', ''b''] ?p =
        \<lparr>httpStatus = 200,
         jsonBody = [(''success'', JBool True), (''message'', JString ''Products''),
                     (''data'', JData [''a'', ''b'']),
                     (''meta'', JMeta \<lparr>page = page ?p, limit = limit ?p,
                                       pagination.total = pagination.total ?p,
                                       totalPages = Some n\<rparr>)]\<rparr>"
    and c: "n = (pagination.total ?p + limit ?p - 1) div limit ?p"
    using sendPaginated_totalPages [OF l lb t tb, of "''Products''" "[''a'', ''b'']"]
    by blast
  have "n = 3" using c by simp
  then show ?thesis using l lb t tb r by simp
qed

text \<open>
  The claim as stated fails beyond \<open>2^53\<close>. The total \<open>27021597764222984\<close> is
  \<open>3 * 2^53 + 8\<close>, itself a double; with the limit 3 the exact quotient lies a third
  above \<open>9007199254740994\<close>, the doubles there are the even integers, and the
  division rounds down to that integer, which \<^verbatim>\<open>Math.ceil\<close> leaves as it is. The
  page count written is one below the ceiling, and too small to hold the total.
\<close>

theorem sendPaginated_beyond_safe_integers:
  "1 \<le> pagination.limit \<lparr>page = 1, limit = 3, pagination.total = 27021597764222984\<rparr>
   \<and> 0 \<le> pagination.total \<lparr>page = 1, limit = 3, pagination.total = 27021597764222984\<rparr>
   \<and> sendPaginated ''Products'' [''a'']
        \<lparr>page = 1, limit = 3, pagination.total = 27021597764222984\<rparr> =
        \<lparr>httpStatus = 200,
         jsonBody = [(''success'', JBool True), (''message'', JString ''Products''),
                     (''data'', JData [''a'']),
                     (''meta'', JMeta \<lparr>page = 1, limit = 3,
                                       pagination.total = 27021597764222984,
                                       totalPages = Some 9007199254740994\<rparr>)]\<rparr>
   \<and> \<lceil>real_of_int 27021597764222984 / real_of_int 3\<rceil> = 9007199254740995
   \<and> 9007199254740994 * 3 < (27021597764222984 :: int)"
proof -
  have q: "ceilQuotient 27021597764222984 3 = Some 9007199254740994"
    by code_simp
  have c: "\<lceil>real_of_int 27021597764222984 / real_of_int 3\<rceil> = 9007199254740995"
    by simp
  show ?thesis
    using c by (simp add: sendPaginated_def sendSuccess_def q orDefault_simps)
qed

section \<open>Properties of the health probe\<close>

lemma length_filter_all: "(length (filter P xs) = length xs) = list_all P xs"
proof (induction xs)
  case Nil
  show ?case by simp
next
  case (Cons x xs)
  have "length (filter P xs) \<le> length xs" by simp
  then show ?case using Cons by (auto simp del: length_filter_le)
qed

lemma filter_none: "(filter P xs = []) = (\<not> list_ex P xs)"
  by (induction xs) auto

lemma determineOverallStatus_cases:
  "determineOverallStatus ss =
     (if list_all (\<lambda>s. s = disconnected) ss then unhealthy
      else if list_ex (\<lambda>s. s = disconnected) ss then degraded
      else healthy)"
  by (simp add: determineOverallStatus_def Let_def length_filter_all filter_none)

lemma checkDatabase_status:
  "dbHealth.status (checkDatabase p) =
     (if (case prisma p of None \<Rightarrow> False | Some h \<Rightarrow> queryRaw p h)
      then connected else disconnected)"
  by (simp add: checkDatabase_def getDatabase_def split: option.splits)

lemma getDetailedHealth_status:
  "status (getDetailedHealth pe p) =
     (if dbHealth.status (checkDatabase p) = connected then healthy else unhealthy)"
  by (cases "dbHealth.status (checkDatabase p)")
     (simp_all add: getDetailedHealth_def determineOverallStatus_def Let_def)

lemma getDetailedHealth_database:
  "database (dependencies (getDetailedHealth pe p)) = checkDatabase p"
  by (simp add: getDetailedHealth_def Let_def)

lemma getDetailedHealth_overall:
  "status (getDetailedHealth pe p) =
     determineOverallStatus
       [dbHealth.status (database (dependencies (getDetailedHealth pe p)))]"
  by (simp add: getDetailedHealth_def Let_def)

text \<open>
  Claim C6. \<open>determineOverallStatus\<close> answers \<open>unhealthy\<close> when every status of the list
  is \<open>disconnected\<close>, else \<open>degraded\<close> when some status is, else \<open>healthy\<close>; on the
  lists of one status and more these are the three cases all, some but not all, none.
  \<open>getDetailedHealth\<close> applies it to the list holding the database status, which is
  \<open>connected\<close> when the handle exists and the query resolves and \<open>disconnected\<close>
  otherwise. The endpoint answers 200 when the overall status is \<open>healthy\<close> and 503
  otherwise, so 200 when the ping succeeds and 503 when it fails, with the health
  record as the data of a success envelope.
\<close>

theorem detailed_health_status:
  "determineOverallStatus ss =
     (if list_all (\<lambda>s. s = disconnected) ss then unhealthy
      else if list_ex (\<lambda>s. s = disconnected) ss then degraded
      else healthy)
   \<and> (ss \<noteq> [] \<and> list_all (\<lambda>s. s = disconnected) ss \<longrightarrow>
        determineOverallStatus ss = unhealthy)
   \<and> (list_ex (\<lambda>s. s = disconnected) ss \<and> \<not> list_all (\<lambda>s. s = disconnected) ss \<longrightarrow>
        determineOverallStatus ss = degraded)
   \<and> (ss \<noteq> [] \<and> \<not> list_ex (\<lambda>s. s = disconnected) ss \<longrightarrow>
        determineOverallStatus ss = healthy)
   \<and> status (getDetailedHealth pe p) =
       determineOverallStatus
         [dbHealth.status (database (dependencies (getDetailedHealth pe p)))]
   \<and> dbHealth.status (database (dependencies (getDetailedHealth pe p))) =
       (if (case prisma p of None \<Rightarrow> False | Some h \<Rightarrow> queryRaw p h)
        then connected else disconnected)
   \<and> httpStatus (detailed pe p) =
       (if status (getDetailedHealth pe p) = healthy then 200 else 503)
   \<and> httpStatus (detailed pe p) =
       (if (case prisma p of None \<Rightarrow> False | Some h \<Rightarrow> queryRaw p h) then 200 else 503)
   \<and> jsonBody (detailed pe p) =
       [(''success'', JBool True),
        (''message'',
         JString (''Service is '' @ statusText (status (getDetailedHealth pe p)))),
        (''data'', JData (getDetailedHealth pe p))]"
proof -
  have a: "determineOverallStatus ss =
     (if list_all (\<lambda>s. s = disconnected) ss then unhealthy
      else if list_ex (\<lambda>s. s = disconnected) ss then degraded
      else healthy)"
    by (rule determineOverallStatus_cases)
  have a1: "ss \<noteq> [] \<and> list_all (\<lambda>s. s = disconnected) ss \<longrightarrow>
        determineOverallStatus ss = unhealthy"
    by (simp add: a)
  have a2: "list_ex (\<lambda>s. s = disconnected) ss \<and> \<not> list_all (\<lambda>s. s = disconnected) ss \<longrightarrow>
        determineOverallStatus ss = degraded"
    by (simp add: a)
  have a3: "ss \<noteq> [] \<and> \<not> list_ex (\<lambda>s. s = disconnected) ss \<longrightarrow>
        determineOverallStatus ss = healthy"
    by (cases ss) (auto simp add: determineOverallStatus_cases)
  have b: "status (getDetailedHealth pe p) =
       determineOverallStatus
         [dbHealth.status (database (dependencies (getDetailedHealth pe p)))]"
    by (rule getDetailedHealth_overall)
  have c: "dbHealth.status (database (dependencies (getDetailedHealth pe p))) =
       (if (case prisma p of None \<Rightarrow> False | Some h \<Rightarrow> queryRaw p h)
        then connected else disconnected)"
    by (simp only: getDetailedHealth_database checkDatabase_status)
  have d: "httpStatus (detailed pe p) =
       (if status (getDetailedHealth pe p) = healthy then 200 else 503)"
    by (simp add: detailed_def Let_def sendSuccess_def orDefault_simps)
  have e: "httpStatus (detailed pe p) =
       (if (case prisma p of None \<Rightarrow> False | Some h \<Rightarrow> queryRaw p h) then 200 else 503)"
    unfolding d getDetailedHealth_status checkDatabase_status by simp
  have f: "jsonBody (detailed pe p) =
       [(''success'', JBool True),
        (''message'',
         JString (''Service is '' @ statusText (status (getDetailedHealth pe p)))),
        (''data'', JData (getDetailedHealth pe p))]"
    by (simp add: detailed_def Let_def sendSuccess_def)
  show ?thesis using a a1 a2 a3 b c d e f by blast
qed

theorem detailed_health_status_witness:
  "[disconnected, disconnected] \<noteq> [] \<and> list_all (\<lambda>s. s = disconnected) [disconnected, disconnected]
   \<and> determineOverallStatus [disconnected, disconnected] = unhealthy
   \<and> list_ex (\<lambda>s. s = disconnected) [connected, disconnected]
   \<and> \<not> list_all (\<lambda>s. s = disconnected) [connected, disconnected]
   \<and> determineOverallStatus [connected, disconnected] = degraded
   \<and> [connected, connected] \<noteq> [] \<and> \<not> list_ex (\<lambda>s. s = disconnected) [connected, connected]
   \<and> determineOverallStatus [connected, connected] = healthy
   \<and> httpStatus
        (detailed
           \<lparr>isoNow = ''2024-01-01T00:00:00.000Z'', processUptime = 12,
            npm_package_version = None, heapUsed = 10, heapTotal = 40,
            heapPercentage = Some 25\<rparr>
           \<lparr>prisma = Some (), queryRaw = (\<lambda>h. False), startedAt = 5, finishedAt = 9\<rparr>)
       = 503
   \<and> httpStatus
        (detailed
           \<lparr>isoNow = ''2024-01-01T00:00:00.000Z'', processUptime = 12,
            npm_package_version = None, heapUsed = 10, heapTotal = 40,
            heapPercentage = Some 25\<rparr>
           \<lparr>prisma = Some (), queryRaw = (\<lambda>h. True), startedAt = 5, finishedAt = 9\<rparr>)
       = 200"
proof -
  let ?pe = "\<lparr>isoNow = ''2024-01-01T00:00:00.000Z'', processUptime = 12,
            npm_package_version = None, heapUsed = 10, heapTotal = 40,
            heapPercentage = Some 25\<rparr>"
  let ?down = "\<lparr>prisma = Some (), queryRaw = (\<lambda>h. False), startedAt = 5, finishedAt = 9\<rparr>"
  let ?up = "\<lparr>prisma = Some (), queryRaw = (\<lambda>h. True), startedAt = 5, finishedAt = 9\<rparr>"
  have h1: "[disconnected, disconnected] \<noteq> []
      \<and> list_all (\<lambda>s. s = disconnected) [disconnected, disconnected]" by simp
  have h2: "list_ex (\<lambda>s. s = disconnected) [connected, disconnected]
      \<and> \<not> list_all (\<lambda>s. s = disconnected) [connected, disconnected]" by simp
  have h3: "[connected, connected] \<noteq> []
      \<and> \<not> list_ex (\<lambda>s. s = disconnected) [connected, connected]" by simp
  have t1: "determineOverallStatus [disconnected, disconnected] = unhealthy"
    using detailed_health_status [where ss = "[disconnected, disconnected]"
        and pe = ?pe and p = ?down] h1 by blast
  have t2: "determineOverallStatus [connected, disconnected] = degraded"
    using detailed_health_status [where ss = "[connected, disconnected]"
        and pe = ?pe and p = ?down] h2 by blast
  have t3: "determineOverallStatus [connected, connected] = healthy"
    using detailed_health_status [where ss = "[connected, connected]"
        and pe = ?pe and p = ?down] h3 by blast
  have "httpStatus (detailed ?pe ?down) =
          (if (case prisma ?down of None \<Rightarrow> False | Some h \<Rightarrow> queryRaw ?down h)
           then 200 else 503)"
    using detailed_health_status [where ss = "[]" and pe = ?pe and p = ?down] by blast
  then have t4: "httpStatus (detailed ?pe ?down) = 503" by simp
  have "httpStatus (detailed ?pe ?up) =
          (if (case prisma ?up of None \<Rightarrow> False | Some h \<Rightarrow> queryRaw ?up h)
           then 200 else 503)"
    using detailed_health_status [where ss = "[]" and pe = ?pe and p = ?up] by blast
  then have t5: "httpStatus (detailed ?pe ?up) = 200" by simp
  show ?thesis using h1 h2 h3 t1 t2 t3 t4 t5 by blast
qed

text \<open>
  Claim C9. For every outcome of the ping, \<open>getDetailedHealth\<close> hands
  \<open>determineOverallStatus\<close> the list of exactly one element, the database status. So
  the overall status is never \<open>degraded\<close>: it is \<open>healthy\<close> when the ping succeeds (the
  handle exists and the query resolves), where the database status is \<open>connected\<close>,
  and \<open>unhealthy\<close> when the ping fails, where it is \<open>disconnected\<close>.
\<close>

theorem detailed_health_never_degraded:
  "status (getDetailedHealth pe p) \<noteq> degraded
   \<and> status (getDetailedHealth pe p) =
       (if (case prisma p of None \<Rightarrow> False | Some h \<Rightarrow> queryRaw p h)
        then healthy else unhealthy)
   \<and> dbHealth.status (database (dependencies (getDetailedHealth pe p))) =
       (if (case prisma p of None \<Rightarrow> False | Some h \<Rightarrow> queryRaw p h)
        then connected else disconnected)
   \<and> status (getDetailedHealth pe p) =
       determineOverallStatus [dbHealth.status (checkDatabase p)]
   \<and> determineOverallStatus [connected] = healthy
   \<and> determineOverallStatus [disconnected] = unhealthy
   \<and> status (getDetailedHealth pe p)
       = (if dbHealth.status (database (dependencies (getDetailedHealth pe p))) = connected
          then healthy else unhealthy)"
proof -
  have s: "status (getDetailedHealth pe p) =
       (if (case prisma p of None \<Rightarrow> False | Some h \<Rightarrow> queryRaw p h)
        then healthy else unhealthy)"
    by (simp add: getDetailedHealth_status checkDatabase_status)
  have d: "dbHealth.status (database (dependencies (getDetailedHealth pe p))) =
       (if (case prisma p of None \<Rightarrow> False | Some h \<Rightarrow> queryRaw p h)
        then connected else disconnected)"
    by (simp only: getDetailedHealth_database checkDatabase_status)
  have l: "status (getDetailedHealth pe p) =
       determineOverallStatus [dbHealth.status (checkDatabase p)]"
    by (simp add: getDetailedHealth_def Let_def)
  have c1: "determineOverallStatus [connected] = healthy"
    by (simp add: determineOverallStatus_def)
  have c2: "determineOverallStatus [disconnected] = unhealthy"
    by (simp add: determineOverallStatus_def)
  have r: "status (getDetailedHealth pe p)
       = (if dbHealth.status (database (dependencies (getDetailedHealth pe p))) = connected
          then healthy else unhealthy)"
    by (simp only: getDetailedHealth_status getDetailedHealth_database)
  have n: "status (getDetailedHealth pe p) \<noteq> degraded"
    by (simp add: getDetailedHealth_status)
  show ?thesis using n s d l c1 c2 r by blast
qed

section \<open>Properties of the authentication steps\<close>

lemma authorize_cases:
  "authorize roles req =
     (case user req of
        None \<Rightarrow> NextError (UnauthorizedError (Some ''User not authenticated'') None)
      | Some u \<Rightarrow>
          if role u \<in> set roles then Next req
          else NextError (UnauthorizedError (Some ''Insufficient permissions'') None))"
  by (simp add: authorize_def split: option.splits)

lemma Unauthorized_not_Forbidden: "UnauthorizedError mo co \<noteq> ForbiddenError mo' co'"
proof
  assume "UnauthorizedError mo co = ForbiddenError mo' co'"
  then have "statusCode (UnauthorizedError mo co) = statusCode (ForbiddenError mo' co')"
    by simp
  then show False by (simp add: taxonomy_status)
qed

text \<open>
  Claim C8. For every list of allowed roles and every request, \<open>authorize\<close> signals an
  error built by \<^verbatim>\<open>UnauthorizedError\<close>, with status 401, when the request has no
  identity and when the identity's role is not among the allowed ones; it never signals
  one built by \<^verbatim>\<open>ForbiddenError\<close>. When the role is among the allowed ones it
  calls \<^verbatim>\<open>next()\<close> with the request unchanged.
\<close>

theorem authorize_unauthorized:
  "(user req = None \<longrightarrow>
      authorize roles req =
        NextError (UnauthorizedError (Some ''User not authenticated'') None))
   \<and> (user req = Some u \<and> role u \<notin> set roles \<longrightarrow>
      authorize roles req =
        NextError (UnauthorizedError (Some ''Insufficient permissions'') None))
   \<and> (user req = Some u \<and> role u \<in> set roles \<longrightarrow> authorize roles req = Next req)
   \<and> statusCode (UnauthorizedError (Some msg) None) = Some 401
   \<and> code (UnauthorizedError (Some msg) None) = Some ''UNAUTHORIZED''
   \<and> authorize roles req \<noteq> NextError (ForbiddenError mo co)"
proof -
  have f: "authorize roles req \<noteq> NextError (ForbiddenError mo co)"
    by (simp add: authorize_cases Unauthorized_not_Forbidden split: option.splits)
  have s: "statusCode (UnauthorizedError (Some msg) None) = Some 401"
    by (rule taxonomy_status)
  have c: "code (UnauthorizedError (Some msg) None) = Some ''UNAUTHORIZED''"
    by (simp add: UnauthorizedError_def AppError_fields orDefault_simps)
  show ?thesis using f s c by (simp add: authorize_cases)
qed

theorem authorize_unauthorized_witness:
  "user \<lparr>authorization = None, user = None, body = (), query = (), params = ()\<rparr> = None
   \<and> authorize [''admin'']
        \<lparr>authorization = None, user = None, body = (), query = (), params = ()\<rparr>
      = NextError (UnauthorizedError (Some ''User not authenticated'') None)
   \<and> role \<lparr>id' = ''7'', email = ''v@example.org'', role = ''viewer''\<rparr> \<notin> set [''admin'']
   \<and> authorize [''admin'']
        \<lparr>authorization = None,
         user = Some \<lparr>id' = ''7'', email = ''v@example.org'', role = ''viewer''\<rparr>,
         body = (), query = (), params = ()\<rparr>
      = NextError (UnauthorizedError (Some ''Insufficient permissions'') None)
   \<and> role \<lparr>id' = ''1'', email = ''a@example.org'', role = ''admin''\<rparr> \<in> set [''admin'']
   \<and> authorize [''admin'']
        \<lparr>authorization = None,
         user = Some \<lparr>id' = ''1'', email = ''a@example.org'', role = ''admin''\<rparr>,
         body = (), query = (), params = ()\<rparr>
      = Next \<lparr>authorization = None,
              user = Some \<lparr>id' = ''1'', email = ''a@example.org'', role = ''admin''\<rparr>,
              body = (), query = (), params = ()\<rparr>"
proof -
  let ?v = "\<lparr>id' = ''7'', email = ''v@example.org'', role = ''viewer''\<rparr>"
  let ?a = "\<lparr>id' = ''1'', email = ''a@example.org'', role = ''admin''\<rparr>"
  let ?r0 = "\<lparr>authorization = None, user = None, body = (), query = (), params = ()\<rparr>"
  let ?rv = "\<lparr>authorization = None, user = Some ?v, body = (), query = (), params = ()\<rparr>"
  let ?ra = "\<lparr>authorization = None, user = Some ?a, body = (), query = (), params = ()\<rparr>"
  have h0: "user ?r0 = None" by simp
  have hv: "user ?rv = Some ?v \<and> role ?v \<notin> set [''admin'']" by simp
  have ha: "user ?ra = Some ?a \<and> role ?a \<in> set [''admin'']" by simp
  have t0: "authorize [''admin''] ?r0 =
              NextError (UnauthorizedError (Some ''User not authenticated'') None)"
    using authorize_unauthorized [where req = ?r0 and roles = "[''admin'']"] h0 by blast
  have tv: "authorize [''admin''] ?rv =
              NextError (UnauthorizedError (Some ''Insufficient permissions'') None)"
    using authorize_unauthorized [where req = ?rv and u = ?v and roles = "[''admin'']"] hv by blast
  have ta: "authorize [''admin''] ?ra = Next ?ra"
    using authorize_unauthorized [where req = ?ra and u = ?a and roles = "[''admin'']"] ha by blast
  show ?thesis using h0 hv ha t0 tv ta by blast
qed

lemma splitOn_nonempty: "splitOn sep s \<noteq> []"
  by (induction s) (auto split: list.splits)

lemma splitOn_append:
  "sep \<notin> set w \<Longrightarrow> splitOn sep (w @ sep # rest) = w # splitOn sep rest"
  by (induction w) (auto split: list.splits)

lemma splitOn_hd: "hd (splitOn sep s) = takeWhile (\<lambda>c. c \<noteq> sep) s"
  by (induction s) (auto split: list.splits simp: splitOn_nonempty)

lemma bearer_token:
  "elementAt (splitOn CHR '' '' (''Bearer '' @ tok)) 1 =
     Some (takeWhile (\<lambda>c. c \<noteq> CHR '' '') tok)"
proof -
  have "splitOn CHR '' '' (''Bearer'' @ CHR '' '' # tok) = ''Bearer'' # splitOn CHR '' '' tok"
    by (rule splitOn_append) simp
  moreover obtain w ws where "splitOn CHR '' '' tok = w # ws"
    using splitOn_nonempty [of "CHR '' ''" tok] by (cases "splitOn CHR '' '' tok") auto
  moreover have "hd (splitOn CHR '' '' tok) = takeWhile (\<lambda>c. c \<noteq> CHR '' '') tok"
    by (rule splitOn_hd)
  ultimately show ?thesis by simp
qed

lemma authenticate_accepts:
  assumes "authorization req = Some (''Bearer '' @ tok)" "tok \<noteq> []" "hd tok \<noteq> CHR '' ''"
  shows "authenticate req = Next req"
proof -
  have "takeWhile (\<lambda>c. c \<noteq> CHR '' '') tok \<noteq> []"
    using assms(2,3) by (cases tok) auto
  then show ?thesis
    using assms(1) bearer_token [of tok]
    by (simp add: authenticate_def)
qed

lemma authenticate_outcome:
  "authenticate req = Next req
   \<or> authenticate req = NextError (UnauthorizedError (Some ''No token provided'') None)
   \<or> authenticate req = NextError (UnauthorizedError (Some ''Invalid token'') None)"
  by (simp add: authenticate_def split: option.splits)

text \<open>
  Claim C10. \<open>authenticate\<close> never attaches an identity: when it calls \<^verbatim>\<open>next()\<close> the
  request is as it came. A request comes from the HTTP layer with no identity, and no
  other step of the application writes \<open>user\<close>; so for every such request and every
  list of roles, \<open>authenticate\<close> followed by \<open>authorize\<close> signals an error built by
  \<^verbatim>\<open>UnauthorizedError\<close>, with status 401. When \<open>authenticate\<close> accepts the request,
  as it does for a header \<^verbatim>\<open>Bearer\<close>, one space and a token that is not empty and does
  not start with a space, the error is the one of \<open>authorize\<close> for a missing identity.
\<close>

theorem authenticate_then_authorize:
  "(authenticate req = Next req' \<longrightarrow> req' = req)
   \<and> (user req = None \<longrightarrow>
        (\<exists>msg. andThen (authenticate req) (authorize roles)
                 = NextError (UnauthorizedError (Some msg) None)
               \<and> statusCode (UnauthorizedError (Some msg) None) = Some 401))
   \<and> (user req = None \<and> authenticate req = Next req' \<longrightarrow>
        andThen (authenticate req) (authorize roles)
          = NextError (UnauthorizedError (Some ''User not authenticated'') None))
   \<and> (authorization req = Some (''Bearer '' @ tok) \<and> tok \<noteq> [] \<and> hd tok \<noteq> CHR '' '' \<longrightarrow>
        authenticate req = Next req)"
proof -
  have a: "authenticate req = Next req' \<longrightarrow> req' = req"
    using authenticate_outcome [of req] by auto
  have b: "user req = None \<longrightarrow>
        (\<exists>msg. andThen (authenticate req) (authorize roles)
                 = NextError (UnauthorizedError (Some msg) None)
               \<and> statusCode (UnauthorizedError (Some msg) None) = Some 401)"
    using authenticate_outcome [of req]
    by (auto simp add: authorize_cases taxonomy_status)
  have c: "user req = None \<and> authenticate req = Next req' \<longrightarrow>
        andThen (authenticate req) (authorize roles)
          = NextError (UnauthorizedError (Some ''User not authenticated'') None)"
    using a by (auto simp add: authorize_cases)
  have d: "authorization req = Some (''Bearer '' @ tok) \<and> tok \<noteq> [] \<and> hd tok \<noteq> CHR '' '' \<longrightarrow>
        authenticate req = Next req"
    using authenticate_accepts by blast
  show ?thesis using a b c d by blast
qed

theorem authenticate_then_authorize_witness:
  "user \<lparr>authorization = Some ''Bearer abc'', user = None,
          body = (), query = (), params = ()\<rparr> = None
   \<and> authorization \<lparr>authorization = Some ''Bearer abc'', user = None,
          body = (), query = (), params = ()\<rparr> = Some (''Bearer '' @ ''abc'')
   \<and> ''abc'' \<noteq> [] \<and> hd ''abc'' \<noteq> CHR '' ''
   \<and> authenticate \<lparr>authorization = Some ''Bearer abc'', user = None,
          body = (), query = (), params = ()\<rparr>
      = Next \<lparr>authorization = Some ''Bearer abc'', user = None,
          body = (), query = (), params = ()\<rparr>
   \<and> andThen (authenticate \<lparr>authorization = Some ''Bearer abc'', user = None,
          body = (), query = (), params = ()\<rparr>) (authorize [''admin''])
      = NextError (UnauthorizedError (Some ''User not authenticated'') None)"
proof -
  let ?r = "\<lparr>authorization = Some ''Bearer abc'', user = None,
          body = (), query = (), params = ()\<rparr>"
  have u: "user ?r = None" by simp
  have h: "authorization ?r = Some (''Bearer '' @ ''abc'')" by simp
  have k: "''abc'' \<noteq> [] \<and> hd ''abc'' \<noteq> CHR '' ''" by simp
  note t = authenticate_then_authorize
    [where req = ?r and req' = ?r and tok = "''abc''" and roles = "[''admin'']"]
  have acc: "authenticate ?r = Next ?r" using t h k by blast
  have sig: "andThen (authenticate ?r) (authorize [''admin''])
      = NextError (UnauthorizedError (Some ''User not authenticated'') None)"
    using t u acc by blast
  show ?thesis using u h k acc sig by blast
qed

section \<open>Properties of the validation step\<close>

lemma createProperty_map_of:
  "map_of errs key = None \<Longrightarrow>
   map_of (createProperty key errs) k = (if k = key then Some [] else map_of errs k)"
  by (induction key errs rule: createProperty.induct) (auto split: if_splits)

lemma createProperty_keys:
  "fst ` set (createProperty key errs) = insert key (fst ` set errs)"
  by (induction key errs rule: createProperty.induct) auto

lemma createProperty_distinct:
  "key \<notin> fst ` set errs \<Longrightarrow> distinct (map fst errs) \<Longrightarrow>
   distinct (map fst (createProperty key errs))"
  by (induction key errs rule: createProperty.induct) (auto simp add: createProperty_keys)

lemma pushTo_map_of:
  "map_of (pushTo key msg errs) k =
     (if k = key then map_option (\<lambda>ms. ms @ [msg]) (map_of errs key) else map_of errs k)"
  by (induction key msg errs rule: pushTo.induct) auto

lemma pushTo_fst: "map fst (pushTo key msg errs) = map fst errs"
  by (induction key msg errs rule: pushTo.induct) auto

lemma pushMessage_map_of:
  "map_of (pushMessage key msg errs) k =
     (if k = key
      then Some ((case map_of errs key of None \<Rightarrow> [] | Some ms \<Rightarrow> ms) @ [msg])
      else map_of errs k)"
  by (cases "map_of errs key")
     (simp_all add: pushMessage_def pushTo_map_of createProperty_map_of)

lemma pushMessage_fst:
  "map fst (pushMessage key msg errs) =
     map fst (if map_of errs key = None then createProperty key errs else errs)"
  by (simp add: pushMessage_def pushTo_fst)

lemma pushMessage_keys: "fst ` set (pushMessage key msg errs) = insert key (fst ` set errs)"
proof -
  have "fst ` set (pushMessage key msg errs) = set (map fst (pushMessage key msg errs))"
    by simp
  also have "\<dots> = set (map fst (if map_of errs key = None
                                  then createProperty key errs else errs))"
    by (simp only: pushMessage_fst)
  also have "\<dots> = insert key (fst ` set errs)"
  proof (cases "map_of errs key")
    case None
    then show ?thesis by (simp add: createProperty_keys)
  next
    case (Some ms)
    then have "key \<in> fst ` set errs" by (metis domI dom_map_of_conv_image_fst)
    then show ?thesis using Some by auto
  qed
  finally show ?thesis .
qed

lemma pushMessage_distinct:
  "distinct (map fst errs) \<Longrightarrow> distinct (map fst (pushMessage key msg errs))"
  by (cases "map_of errs key")
     (simp_all add: pushMessage_fst createProperty_distinct map_of_eq_None_iff)

lemma addDetail_ok:
  "joinWith ''.'' (fst d) \<notin> set objectPrototypeKeys \<Longrightarrow>
     addDetail errs d = Inr (pushMessage (joinWith ''.'' (fst d)) (snd d) errs)"
  by (simp add: addDetail_def Let_def)

lemma forEachDetail_fold:
  "\<forall>d\<in>set ds. joinWith ''.'' (fst d) \<notin> set objectPrototypeKeys \<Longrightarrow>
   forEachDetail ds errs =
     Inr (foldl (\<lambda>e d. pushMessage (joinWith ''.'' (fst d)) (snd d) e) errs ds)"
  by (induction ds arbitrary: errs) (simp_all add: addDetail_ok)

lemma fold_pushMessage_distinct:
  "distinct (map fst errs) \<Longrightarrow>
   distinct (map fst (foldl (\<lambda>e d. pushMessage (joinWith ''.'' (fst d)) (snd d) e) errs ds))"
  by (induction ds arbitrary: errs) (simp_all add: pushMessage_distinct)

lemma fold_pushMessage_keys:
  "fst ` set (foldl (\<lambda>e d. pushMessage (joinWith ''.'' (fst d)) (snd d) e) errs ds) =
     fst ` set errs \<union> (\<lambda>d. joinWith ''.'' (fst d)) ` set ds"
  by (induction ds arbitrary: errs) (simp_all add: pushMessage_keys)

lemma fold_pushMessage_messages:
  "(case map_of (foldl (\<lambda>e d. pushMessage (joinWith ''.'' (fst d)) (snd d) e) errs ds) k of
      None \<Rightarrow> [] | Some ms \<Rightarrow> ms) =
   (case map_of errs k of None \<Rightarrow> [] | Some ms \<Rightarrow> ms)
     @ map snd (filter (\<lambda>d. joinWith ''.'' (fst d) = k) ds)"
  by (induction ds arbitrary: errs) (simp_all add: pushMessage_map_of)

lemma map_of_key: "key \<in> fst ` set errs \<Longrightarrow> \<exists>ms. map_of errs key = Some ms"
  by (induction errs) auto

text \<open>
  Where no dotted path spells a property of \<^verbatim>\<open>Object.prototype\<close>, the step signals
  the validation error with the map of all the details the schema reported: one key
  per dotted path, and under each key the messages of that path in the order reported.
\<close>

lemma validate_groups_messages:
  assumes e: "error (schema \<lparr>abortEarly = False, stripUnknown = True\<rparr>
                      (getSection (orDefault target Body) req)) = Some details"
    and k: "\<forall>d\<in>set details. joinWith ''.'' (fst d) \<notin> set objectPrototypeKeys"
  shows "\<exists>errs. validate schema target req =
                  NextError (ValidationError (Some ''Validation failed'') (Some errs))
           \<and> errors (ValidationError (Some ''Validation failed'') (Some errs)) = Some errs
           \<and> distinct (map fst errs)
           \<and> fst ` set errs = (\<lambda>d. joinWith ''.'' (fst d)) ` set details
           \<and> (\<forall>key\<in>fst ` set errs.
                 map_of errs key =
                   Some (map snd (filter (\<lambda>d. joinWith ''.'' (fst d) = key) details)))"
proof -
  let ?errs = "foldl (\<lambda>e d. pushMessage (joinWith ''.'' (fst d)) (snd d) e) [] details"
  have r: "forEachDetail details [] = Inr ?errs"
    using k by (rule forEachDetail_fold)
  have v: "validate schema target req =
             NextError (ValidationError (Some ''Validation failed'') (Some ?errs))"
    using e r by (simp add: validate_def Let_def)
  have c: "errors (ValidationError (Some ''Validation failed'') (Some ?errs)) = Some ?errs"
    by (rule taxonomy_overrides)
  have dd: "distinct (map fst ?errs)"
    by (rule fold_pushMessage_distinct) simp
  have ks: "fst ` set ?errs = (\<lambda>d. joinWith ''.'' (fst d)) ` set details"
    by (simp add: fold_pushMessage_keys)
  have m: "\<forall>key\<in>fst ` set ?errs. map_of ?errs key =
             Some (map snd (filter (\<lambda>d. joinWith ''.'' (fst d) = key) details))"
  proof
    fix key
    assume "key \<in> fst ` set ?errs"
    then obtain ms' where s: "map_of ?errs key = Some ms'"
      using map_of_key by fastforce
    have "(case map_of ?errs key of None \<Rightarrow> [] | Some ms \<Rightarrow> ms) =
            map snd (filter (\<lambda>d. joinWith ''.'' (fst d) = key) details)"
      using fold_pushMessage_messages [of "[]" details key] by simp
    then show "map_of ?errs key =
             Some (map snd (filter (\<lambda>d. joinWith ''.'' (fst d) = key) details))"
      using s by simp
  qed
  from v c dd ks m show ?thesis by (intro exI [of _ ?errs] conjI)
qed

text \<open>
  The map lists an array-index key before the other keys, whatever the order of the
  details: the path \<^verbatim>\<open>name\<close> reported before the path \<^verbatim>\<open>2\<close> still comes second.
\<close>

lemma forEachDetail_index_keys_first:
  "forEachDetail [([''name''], ''name is required''), ([''2''], ''2 is required'')] [] =
     Inr [(''2'', [''2 is required'']), (''name'', [''name is required''])]"
  by (simp add: addDetail_def Let_def objectPrototypeKeys_def pushMessage_def
        isArrayIndex_def isDigit_def decimalValue_def)

lemma validate_never_responds: "validate schema target req \<noteq> Responded res"
  by (simp add: validate_def Let_def split: option.splits sum.splits)

lemma validate_success:
  "error (schema \<lparr>abortEarly = False, stripUnknown = True\<rparr>
            (getSection (orDefault target Body) req)) = None \<Longrightarrow>
   validate schema target req =
     Next (setSection (orDefault target Body)
             (value' (schema \<lparr>abortEarly = False, stripUnknown = True\<rparr>
                        (getSection (orDefault target Body) req))) req)"
  by (simp add: validate_def Let_def)

text \<open>
  Claim C5. For every schema and input with several violations the step signals a
  validation error with the map of all of them. On the code this fails where a violated
  field is named like a property of \<^verbatim>\<open>Object.prototype\<close>: for a schema with the keys
  \<^verbatim>\<open>constructor\<close> and \<^verbatim>\<open>name\<close>, both strings, and the body
  \<^verbatim>\<open>{constructor: 5, name: 7}\<close>, the library reports the two details below, and the step
  throws a \<^verbatim>\<open>TypeError\<close> at the first instead of signalling the validation error.
\<close>

theorem validate_throws_on_inherited_key:
  "validate
     (\<lambda>opts dat.
        \<lparr>error = Some [([''constructor''], ''constructor must be a string''),
                       ([''name''], ''name must be a string'')],
         value' = dat\<rparr>)
     None req
   = Thrown (TypeError ''errors[key].push is not a function'')"
  by (simp add: validate_def Let_def addDetail_def objectPrototypeKeys_def)

end
